theory Spec2Isabelle
  imports Main
begin

section \<open>Subscription modal: \<open>components/cloud_subscribe_with_loading_modal/index.tsx\<close>\<close>

text \<open>
  The component keeps three pieces of local state (\<open>progress.current\<close>, \<open>error\<close>,
  \<open>processingState\<close>) and talks to its environment through \<open>dispatch\<close>, the two timer
  functions, the clock (\<open>new Date()\<close>) and \<open>props.onBack\<close>. The environment is kept in the
  same record: the actions dispatched so far, the interval timers that are installed, the
  pending \<open>setTimeout\<close>, the suspended \<open>handleSubscribe\<close> and the time of the last event.
  Times are \<open>Date.valueOf()\<close> readings in milliseconds; one clock serves \<open>Date\<close> and the
  timers.
\<close>

datatype ProcessState = PROCESSING | SUCCESS | FAILED

definition MIN_PROCESSING_MILLISECONDS :: int where
  "MIN_PROCESSING_MILLISECONDS = 8000"

definition MAX_FAKE_PROGRESS :: nat where
  "MAX_FAKE_PROGRESS = 95"

text \<open>What \<open>await dispatch(subscribeCloudSubscription(...))\<close> may produce, and \<open>typeof\<close>.\<close>

datatype jsval =
    JSUndefined
  | JSNull
  | JSBoolean bool
  | JSNumber int
  | JSString string
  | JSObject "(string \<times> string) list"

fun typeof :: "jsval \<Rightarrow> string" where
  "typeof JSUndefined = ''undefined''"
| "typeof JSNull = ''object''"
| "typeof (JSBoolean b) = ''boolean''"
| "typeof (JSNumber n) = ''number''"
| "typeof (JSString s) = ''string''"
| "typeof (JSObject fs) = ''object''"

datatype action =
    SelectTeam string
  | ArchiveAllTeamsExcept string
  | SubscribeCloudSubscription "string option"

text \<open>\<open>teamToKeep\<close> and \<open>selectedProduct\<close> are optional; only their \<open>id\<close> is used here.\<close>

record Props =
  teamToKeep :: "string option"
  selectedProduct :: "string option"

text \<open>Where the \<open>async\<close> function \<open>handleSubscribe\<close> is suspended, with its local \<open>start\<close>.\<close>

datatype suspended =
    NotAwaiting
  | AwaitArchive int
  | AwaitSubscribe int

record modal =
  progress :: nat
  error :: bool
  processingState :: ProcessState
  intervalId :: "nat option"
  intervals :: "nat list"
  completion_due :: "int option"
  awaiting :: suspended
  clock :: int
  dispatched :: "action list"
  onBackCalls :: nat

definition dispatch :: "action \<Rightarrow> modal \<Rightarrow> modal" where
  "dispatch a s = s\<lparr>dispatched := dispatched s @ [a]\<rparr>"

text \<open>
  \<open>clearInterval(id)\<close> removes the timer with that handle; with \<open>undefined\<close> (\<open>None\<close>) or
  a handle that is not installed it does nothing.
\<close>

fun clearInterval :: "nat option \<Rightarrow> modal \<Rightarrow> modal" where
  "clearInterval None s = s"
| "clearInterval (Some h) s = s\<lparr>intervals := removeAll h (intervals s)\<rparr>"

text \<open>\<open>intervalId = setInterval(updateProgress, ...)\<close>: a handle not in use is returned.\<close>

definition setInterval :: "modal \<Rightarrow> modal" where
  "setInterval s =
     (let h = Suc (fold max (intervals s) 0)
      in s\<lparr>intervalId := Some h, intervals := h # intervals s\<rparr>)"

text \<open>\<open>setTimeout(completeSubscribe, delay)\<close> called at time \<open>now\<close>.\<close>

definition setTimeout :: "int \<Rightarrow> int \<Rightarrow> modal \<Rightarrow> modal" where
  "setTimeout now delay s = s\<lparr>completion_due := Some (now + delay)\<rparr>"

text \<open>
  The functions below are the closures of the component. Each takes the value its own
  \<open>intervalId\<close> variable holds: the variable is declared anew by every render, and only
  the closures of the render whose effect ran see the handle that \<open>setInterval\<close> returned.
\<close>

definition completeSubscribe :: "nat option \<Rightarrow> modal \<Rightarrow> modal" where
  "completeSubscribe iid s =
     (clearInterval iid s)\<lparr>processingState := SUCCESS, progress := 100\<rparr>"

definition updateProgress :: "nat option \<Rightarrow> modal \<Rightarrow> modal" where
  "updateProgress iid s =
     (if progress s \<ge> MAX_FAKE_PROGRESS then clearInterval iid s
      else s\<lparr>progress :=
             (if progress s + 3 > MAX_FAKE_PROGRESS then MAX_FAKE_PROGRESS
              else progress s + 3)\<rparr>)"

definition handleGoBack :: "nat option \<Rightarrow> modal \<Rightarrow> modal" where
  "handleGoBack iid s =
     (clearInterval iid s)
       \<lparr>progress := 0, error := False, processingState := PROCESSING,
        onBackCalls := Suc (onBackCalls s)\<rparr>"

text \<open>
  \<open>handleSubscribe\<close> in three pieces, cut at its two \<open>await\<close>s: up to the first
  \<open>await\<close>, from the archival's answer to the second, and from the subscription's answer
  \<open>productUpdated\<close> to the end.
\<close>

definition handleSubscribe :: "Props \<Rightarrow> int \<Rightarrow> modal \<Rightarrow> modal" where
  "handleSubscribe props now s =
     (case teamToKeep props of
        Some t \<Rightarrow> (dispatch (ArchiveAllTeamsExcept t) s)\<lparr>awaiting := AwaitArchive now\<rparr>
      | None \<Rightarrow>
          (dispatch (SubscribeCloudSubscription (selectedProduct props)) s)
            \<lparr>awaiting := AwaitSubscribe now\<rparr>)"

definition handleSubscribe_archived :: "Props \<Rightarrow> int \<Rightarrow> modal \<Rightarrow> modal" where
  "handleSubscribe_archived props start s =
     (dispatch (SubscribeCloudSubscription (selectedProduct props)) s)
       \<lparr>awaiting := AwaitSubscribe start\<rparr>"

definition handleSubscribe_resolved :: "int \<Rightarrow> jsval \<Rightarrow> int \<Rightarrow> modal \<Rightarrow> modal" where
  "handleSubscribe_resolved start productUpdated now s0 =
     (let s = s0\<lparr>awaiting := NotAwaiting\<rparr> in
      if typeof productUpdated \<noteq> ''boolean''
      then s\<lparr>error := True, processingState := FAILED\<rparr>
      else
        let millisecondsElapsed = now - start in
        if millisecondsElapsed < MIN_PROCESSING_MILLISECONDS
        then setTimeout now (MIN_PROCESSING_MILLISECONDS - millisecondsElapsed) s
        else completeSubscribe (intervalId s) s)"

text \<open>The first render and its effect, run at time \<open>now\<close>.\<close>

definition initial :: "int \<Rightarrow> modal" where
  "initial now =
     \<lparr>progress = 0, error = False, processingState = PROCESSING, intervalId = None,
      intervals = [], completion_due = None, awaiting = NotAwaiting, clock = now,
      dispatched = [], onBackCalls = 0\<rparr>"

definition useEffect :: "Props \<Rightarrow> int \<Rightarrow> modal" where
  "useEffect props now =
     (let s0 = initial now;
          s1 = (case teamToKeep props of Some t \<Rightarrow> dispatch (SelectTeam t) s0 | None \<Rightarrow> s0);
          s2 = handleSubscribe props now s1
      in setInterval s2)"

text \<open>
  What can happen to the mounted component: the interval fires, an awaited promise is
  answered, the completion timeout fires, or the user presses the button of the failure
  page, whose handler is \<open>handleGoBack\<close> of the render that drew the page (its
  \<open>intervalId\<close> is the event's argument). An event that cannot happen in a state (no such
  timer, nothing awaited, a time before the last event, a timeout before it is due, no
  failure page) gives \<open>None\<close>.
\<close>

datatype event =
    Tick
  | ArchiveResolved
  | SubscribeResolved jsval
  | CompletionTimeout
  | GoBack "nat option"

fun fire :: "Props \<Rightarrow> event \<Rightarrow> modal \<Rightarrow> modal option" where
  "fire props Tick s =
     (case intervalId s of
        None \<Rightarrow> None
      | Some h \<Rightarrow> if h \<in> set (intervals s) then Some (updateProgress (Some h) s) else None)"
| "fire props ArchiveResolved s =
     (case awaiting s of
        AwaitArchive start \<Rightarrow> Some (handleSubscribe_archived props start s)
      | _ \<Rightarrow> None)"
| "fire props (SubscribeResolved v) s =
     (case awaiting s of
        AwaitSubscribe start \<Rightarrow> Some (handleSubscribe_resolved start v (clock s) s)
      | _ \<Rightarrow> None)"
| "fire props CompletionTimeout s =
     (case completion_due s of
        None \<Rightarrow> None
      | Some due \<Rightarrow>
          if due \<le> clock s
          then Some (completeSubscribe (intervalId s) (s\<lparr>completion_due := None\<rparr>))
          else None)"
| "fire props (GoBack iid) s =
     (if processingState s = FAILED then Some (handleGoBack iid s) else None)"

definition step :: "Props \<Rightarrow> int \<times> event \<Rightarrow> modal \<Rightarrow> modal option" where
  "step props te s =
     (if fst te < clock s then None else fire props (snd te) (s\<lparr>clock := fst te\<rparr>))"

fun run :: "Props \<Rightarrow> (int \<times> event) list \<Rightarrow> modal \<Rightarrow> modal option" where
  "run props [] s = Some s"
| "run props (te # tes) s =
     (case step props te s of None \<Rightarrow> None | Some s' \<Rightarrow> run props tes s')"

fun is_GoBack :: "event \<Rightarrow> bool" where
  "is_GoBack (GoBack iid) = True"
| "is_GoBack _ = False"

definition no_go_back :: "(int \<times> event) list \<Rightarrow> bool" where
  "no_go_back tes = list_all (\<lambda>te. \<not> is_GoBack (snd te)) tes"

definition ticks_only :: "(int \<times> event) list \<Rightarrow> bool" where
  "ticks_only tes = list_all (\<lambda>te. snd te = Tick) tes"

text \<open>
  The invariant of a component mounted at time \<open>t0\<close>: while \<open>handleSubscribe\<close> is
  suspended nothing has been decided; a pending completion is due at \<open>t0\<close> plus the
  minimum duration; \<open>SUCCESS\<close> comes with progress 100 and not before that time; in the
  other states the progress is at most the fake maximum.
\<close>

definition attempt_inv :: "int \<Rightarrow> modal \<Rightarrow> bool" where
  "attempt_inv t0 s \<longleftrightarrow>
     t0 \<le> clock s \<and>
     (awaiting s \<noteq> NotAwaiting \<longrightarrow>
        (awaiting s = AwaitArchive t0 \<or> awaiting s = AwaitSubscribe t0) \<and>
        completion_due s = None \<and> processingState s = PROCESSING \<and> \<not> error s) \<and>
     (completion_due s \<noteq> None \<longrightarrow>
        completion_due s = Some (t0 + MIN_PROCESSING_MILLISECONDS) \<and>
        processingState s = PROCESSING \<and> \<not> error s) \<and>
     (processingState s = SUCCESS \<longrightarrow>
        progress s = 100 \<and> t0 + MIN_PROCESSING_MILLISECONDS \<le> clock s \<and> \<not> error s) \<and>
     (processingState s \<noteq> SUCCESS \<longrightarrow> progress s \<le> MAX_FAKE_PROGRESS)"

section \<open>Pricing post renderer: \<open>OpenPricingModalPost\<close>\<close>

text \<open>
  \<open>formatMessage\<close> is rendered with the default messages written in the source, its
  placeholders replaced by the values given (a number by its decimal digits).
  \<open>NonAdminPaidFeatures\<close> comes from \<open>utils/constants\<close>; its four names are taken as a
  parameter. The user directory \<open>userProfiles\<close> is a plain object: its own entries are
  a map from user id to profile, and \<open>userProfiles[userId]\<close> is read by \<open>getProperty\<close>.
\<close>

definition digit :: "nat \<Rightarrow> char" where
  "digit d = char_of (48 + d)"

function string_of_nat :: "nat \<Rightarrow> string" where
  "string_of_nat n = (if n < 10 then [digit n] else string_of_nat (n div 10) @ [digit (n mod 10)])"
  by pat_completeness auto
termination
  by (relation "measure (\<lambda>n. n)") auto

text \<open>\<open>xs.join(sep)\<close>.\<close>

fun join :: "string \<Rightarrow> string list \<Rightarrow> string" where
  "join sep [] = []"
| "join sep [x] = x"
| "join sep (x # y # ys) = x @ sep @ join sep (y # ys)"

text \<open>
  \<open>s.replace(/,([^,]*)$/, '$1')\<close>: the first comma that has no comma after it is dropped,
  and a string without a comma is returned as it is.
\<close>

fun replace_last_comma :: "string \<Rightarrow> string" where
  "replace_last_comma [] = []"
| "replace_last_comma (c # cs) =
     (if c = CHR '','' \<and> CHR '','' \<notin> set cs then cs else c # replace_last_comma cs)"

text \<open>\<open>s.replaceAll(' ', '-')\<close>.\<close>

definition replaceAll_space :: "string \<Rightarrow> string" where
  "replaceAll_space s = map (\<lambda>c. if c = CHR '' '' then CHR ''-'' else c) s"

definition MinimumPlansForFeature_Professional :: string where
  "MinimumPlansForFeature_Professional = ''Professional plan''"

definition MinimumPlansForFeature_Enterprise :: string where
  "MinimumPlansForFeature_Enterprise = ''Enterprise plan''"

record NonAdminPaidFeatures =
  GUEST_ACCOUNTS :: string
  CREATE_MULTIPLE_TEAMS :: string
  ALL_ENTERPRISE_FEATURES :: string
  CUSTOM_USER_GROUPS :: string

text \<open>
  \<open>FeatureRequest\<close>; its fields \<open>id\<close> and \<open>trial\<close> are \<open>request_id\<close> and
  \<open>request_trial\<close> here.
\<close>

record FeatureRequest =
  request_id :: string
  user_id :: string
  required_feature :: string
  required_plan :: string
  create_at :: string
  request_trial :: string

record UserProfile =
  username :: string

text \<open>
  \<open>CustomPostProps\<close>, both fields optional (\<open>Partial\<close>). \<open>requested_features\<close> lists the
  object's entries in the order of \<open>Object.keys\<close>.
\<close>

record CustomPostProps =
  requested_features :: "(string \<times> FeatureRequest list) list option"
  trial :: "bool option"

text \<open>\<open>Post\<close>, as far as the renderer reads it: \<open>id\<close>, \<open>message\<close> and \<open>props\<close>.\<close>

record Post =
  post_id :: string
  message :: string
  post_props :: CustomPostProps

fun getUserIdsForUsersThatRequestedFeature :: "FeatureRequest list \<Rightarrow> string list" where
  "getUserIdsForUsersThatRequestedFeature [] = []"
| "getUserIdsForUsersThatRequestedFeature (request # requests) =
     user_id request # getUserIdsForUsersThatRequestedFeature requests"

text \<open>
  Reading \<open>userProfiles[userId]\<close>: the object's own entry when it has one; otherwise the
  member of that name which every plain object inherits from \<open>Object.prototype\<close>, when
  there is one; otherwise \<open>undefined\<close>.
\<close>

definition Object_prototype :: "string list" where
  "Object_prototype =
     [''constructor'', ''hasOwnProperty'', ''isPrototypeOf'', ''propertyIsEnumerable'',
      ''toLocaleString'', ''toString'', ''valueOf'', ''__proto__'', ''__defineGetter__'',
      ''__defineSetter__'', ''__lookupGetter__'', ''__lookupSetter__'']"

datatype property = Entry UserProfile | Inherited | Missing

definition getProperty :: "(string \<rightharpoonup> UserProfile) \<Rightarrow> string \<Rightarrow> property" where
  "getProperty userProfiles userId =
     (case userProfiles userId of
        Some profile \<Rightarrow> Entry profile
      | None \<Rightarrow> if userId \<in> set Object_prototype then Inherited else Missing)"

text \<open>
  The loop of \<open>getUserNamesForUsersThatRequestedFeature\<close>. Only \<open>undefined\<close> passes the
  test \<open>profile === undefined\<close>. An inherited member is a function or an object without
  a \<open>username\<close>, so \<open>profile?.username\<close> is \<open>undefined\<close> and the concatenation writes
  \<open>@undefined\<close>.
\<close>

fun userNames :: "(string \<rightharpoonup> UserProfile) \<Rightarrow> string list \<Rightarrow> string list" where
  "userNames userProfiles [] = []"
| "userNames userProfiles (userId # userIds) =
     (case getProperty userProfiles userId of
        Missing \<Rightarrow> ''@unknown''
      | Entry profile \<Rightarrow> ''@'' @ username profile
      | Inherited \<Rightarrow> ''@'' @ ''undefined'') # userNames userProfiles userIds"

definition getUserNamesForUsersThatRequestedFeature ::
    "(string \<rightharpoonup> UserProfile) \<Rightarrow> FeatureRequest list \<Rightarrow> string list" where
  "getUserNamesForUsersThatRequestedFeature userProfiles requests =
     userNames userProfiles (getUserIdsForUsersThatRequestedFeature requests)"

text \<open>
  \<open>users.splice(-1, 1)[0]\<close> takes the last name off the list; on an empty list it is
  \<open>undefined\<close>, which the string concatenation writes as \<open>undefined\<close>.
\<close>

definition renderUsersThatRequestedFeature ::
    "(string \<rightharpoonup> UserProfile) \<Rightarrow> FeatureRequest list \<Rightarrow> string" where
  "renderUsersThatRequestedFeature userProfiles requests =
     (if length requests \<ge> 5 then string_of_nat (length requests) @ '' members''
      else
        let users = getUserNamesForUsersThatRequestedFeature userProfiles requests in
        if length users = 1 then hd users
        else
          let lastUser = (if users = [] then ''undefined'' else last users);
              users' = butlast users @ [''and '' @ lastUser]
          in replace_last_comma (join '', '' users'))"

text \<open>
  \<open>mapFeatureToPlan\<close> assigns the component's variable \<open>allProfessional\<close>; it takes the
  variable's value and returns the plan with the new value.
\<close>

definition mapFeatureToPlan :: "NonAdminPaidFeatures \<Rightarrow> string \<Rightarrow> bool \<Rightarrow> string \<times> bool" where
  "mapFeatureToPlan c feature allProfessional =
     (if feature = GUEST_ACCOUNTS c \<or> feature = CREATE_MULTIPLE_TEAMS c
      then (MinimumPlansForFeature_Professional, allProfessional)
      else if feature = ALL_ENTERPRISE_FEATURES c \<or> feature = CUSTOM_USER_GROUPS c
      then (MinimumPlansForFeature_Enterprise, False)
      else (MinimumPlansForFeature_Professional, allProfessional))"

text \<open>One entry of \<open>customMessageBody\<close>: the texts and ids of a feature's title and subtitle.\<close>

record featureMessage =
  title_id :: string
  title_name :: string
  title_message :: string
  subtitle_id :: string
  subtitle_message :: string
  subtitle_userIds :: "string list"

fun featureMessages ::
    "NonAdminPaidFeatures \<Rightarrow> (string \<rightharpoonup> UserProfile) \<Rightarrow> (string \<times> FeatureRequest list) list \<Rightarrow>
     bool \<Rightarrow> featureMessage list \<times> bool" where
  "featureMessages c userProfiles [] allProfessional = ([], allProfessional)"
| "featureMessages c userProfiles ((featureName, requests) # rest) allProfessional =
     (let (plan, allProfessional1) = mapFeatureToPlan c featureName allProfessional;
          m = \<lparr>title_id = replaceAll_space (featureName @ ''-title''),
               title_name = featureName,
               title_message = '' - available on the '' @ plan,
               subtitle_id = replaceAll_space (featureName @ ''-subtitle''),
               subtitle_message =
                 renderUsersThatRequestedFeature userProfiles requests
                   @ '' requested access to this feature'',
               subtitle_userIds = getUserIdsForUsersThatRequestedFeature requests\<rparr>;
          (ms, allProfessional2) = featureMessages c userProfiles rest allProfessional1
      in (m # ms, allProfessional2))"

datatype click =
    OpenLearnMoreTrialModal
  | OpenPricingModal string
  | OpenPurchaseModal string

record button =
  button_id :: "string option"
  onClick :: click
  label :: string

text \<open>\<open>wasTrialRequest\<close> is \<open>postProps?.trial\<close>, tested for truthiness.\<close>

definition renderButtons :: "bool option \<Rightarrow> bool \<Rightarrow> button list" where
  "renderButtons wasTrialRequest allProfessional =
     (if wasTrialRequest = Some True
      then [\<lparr>button_id = Some ''learn_more_about_trial'', onClick = OpenLearnMoreTrialModal,
              label = ''Learn more about trial''\<rparr>,
            \<lparr>button_id = None,
              onClick = OpenPricingModal ''notify_admin_message_view_upgrade_options'',
              label = ''View upgrade options''\<rparr>]
      else if allProfessional
      then [\<lparr>button_id = Some ''upgrade_to_professional'',
              onClick = OpenPurchaseModal ''notify_admin_message_view'',
              label = ''Upgrade to Professional''\<rparr>,
            \<lparr>button_id = Some ''view_upgrade_options'',
              onClick = OpenPricingModal ''notify_admin_message_view_upgrade_options'',
              label = ''View upgrade options''\<rparr>]
      else [\<lparr>button_id = Some ''view_upgrade_options'',
              onClick = OpenPricingModal ''notify_admin_message_view_upgrade_options'',
              label = ''View upgrade options''\<rparr>])"

record rendered_post =
  body_message :: string
  customMessageBody :: "featureMessage list"
  buttons :: "button list"

definition OpenPricingModalPost ::
    "NonAdminPaidFeatures \<Rightarrow> (string \<rightharpoonup> UserProfile) \<Rightarrow> Post \<Rightarrow> rendered_post" where
  "OpenPricingModalPost c userProfiles post =
     (let requestFeatures = requested_features (post_props post);
          wasTrialRequest = trial (post_props post);
          (body, allProfessional) =
            (case requestFeatures of
               None \<Rightarrow> ([], True)
             | Some entries \<Rightarrow> featureMessages c userProfiles entries True)
      in \<lparr>body_message = message post, customMessageBody = body,
          buttons = renderButtons wasTrialRequest allProfessional\<rparr>)"

section \<open>Skeleton loaders: \<open>RectangleSkeletonLoader\<close>\<close>

text \<open>
  The styled component's template, as the declarations it writes for given props. The
  props are JavaScript numbers, of any kind (whole, fractional, \<open>NaN\<close>, infinite): their
  type \<open>'n\<close> is left open, with the literal \<open>8\<close> in it, and \<open>toString\<close> is the text that
  the interpolation writes for a number. An omitted (nullish) \<open>borderRadius\<close> is \<open>None\<close>.
\<close>

record 'n RectangleSkeletonLoaderProps =
  height :: 'n
  width :: 'n
  borderRadius :: "'n option"

definition RectangleSkeletonLoader ::
    "('n::numeral \<Rightarrow> string) \<Rightarrow> 'n RectangleSkeletonLoaderProps \<Rightarrow> (string \<times> string) list" where
  "RectangleSkeletonLoader toString p =
     [(''height'', toString (height p) @ ''px''),
      (''width'', toString (width p) @ ''px''),
      (''border-radius'',
         toString (case borderRadius p of None \<Rightarrow> 8 | Some r \<Rightarrow> r) @ ''px'')]"

section \<open>Properties of the subscription modal\<close>

lemma clearInterval_fields [simp]:
  "progress (clearInterval iid s) = progress s"
  "error (clearInterval iid s) = error s"
  "processingState (clearInterval iid s) = processingState s"
  "completion_due (clearInterval iid s) = completion_due s"
  "awaiting (clearInterval iid s) = awaiting s"
  "clock (clearInterval iid s) = clock s"
  "dispatched (clearInterval iid s) = dispatched s"
  "onBackCalls (clearInterval iid s) = onBackCalls s"
  "intervalId (clearInterval iid s) = intervalId s"
  by (cases iid; simp)+

lemma attempt_inv_useEffect: "attempt_inv t0 (useEffect props t0)"
  by (simp add: attempt_inv_def useEffect_def initial_def handleSubscribe_def dispatch_def
      setInterval_def Let_def MAX_FAKE_PROGRESS_def split: option.splits)

lemma attempt_inv_step:
  "attempt_inv t0 s \<Longrightarrow> step props te s = Some s' \<Longrightarrow> attempt_inv t0 s'"
  by (cases te; cases "snd te")
     (auto simp: attempt_inv_def step_def updateProgress_def completeSubscribe_def
        handleGoBack_def handleSubscribe_archived_def handleSubscribe_resolved_def
        dispatch_def setTimeout_def Let_def MAX_FAKE_PROGRESS_def
        MIN_PROCESSING_MILLISECONDS_def
        split: if_splits option.splits suspended.splits)

lemma attempt_inv_run:
  "attempt_inv t0 s \<Longrightarrow> run props tes s = Some s' \<Longrightarrow> attempt_inv t0 s'"
  by (induction tes arbitrary: s) (auto split: option.splits dest: attempt_inv_step)

lemma updateProgress_mono: "progress s \<le> progress (updateProgress iid s)"
  by (simp add: updateProgress_def MAX_FAKE_PROGRESS_def)

lemma step_progress_mono:
  "attempt_inv t0 s \<Longrightarrow> \<not> is_GoBack (snd te) \<Longrightarrow> step props te s = Some s' \<Longrightarrow>
   progress s \<le> progress s'"
  by (cases te; cases "snd te")
     (auto simp: attempt_inv_def step_def updateProgress_def completeSubscribe_def
        handleSubscribe_archived_def handleSubscribe_resolved_def
        dispatch_def setTimeout_def Let_def MAX_FAKE_PROGRESS_def
        split: if_splits option.splits suspended.splits)

lemma run_progress_mono:
  "attempt_inv t0 s \<Longrightarrow> no_go_back tes \<Longrightarrow> run props tes s = Some s' \<Longrightarrow>
   progress s \<le> progress s'"
proof (induction tes arbitrary: s)
  case Nil
  then show ?case by simp
next
  case (Cons te tes)
  from Cons.prems(3) obtain s1 where s1: "step props te s = Some s1"
    and r: "run props tes s1 = Some s'"
    by (auto split: option.splits)
  from Cons.prems(2) have ng: "\<not> is_GoBack (snd te)" and ngs: "no_go_back tes"
    by (simp_all add: no_go_back_def)
  have "progress s \<le> progress s1"
    using step_progress_mono [OF Cons.prems(1) ng s1] .
  moreover have "progress s1 \<le> progress s'"
    using Cons.IH [OF attempt_inv_step [OF Cons.prems(1) s1] ngs r] .
  ultimately show ?case by simp
qed

lemma step_SubscribeResolved:
  "step props (t, SubscribeResolved v) s = Some s' \<longleftrightarrow>
     clock s \<le> t \<and>
     (\<exists>start. awaiting s = AwaitSubscribe start \<and>
        s' = handleSubscribe_resolved start v t (s\<lparr>clock := t\<rparr>))"
  by (auto simp: step_def split: suspended.splits)

lemma settled_step:
  "awaiting s = NotAwaiting \<and> completion_due s = None \<and> processingState s \<noteq> SUCCESS \<Longrightarrow>
   step props te s = Some s' \<Longrightarrow>
   awaiting s' = NotAwaiting \<and> completion_due s' = None \<and> processingState s' \<noteq> SUCCESS"
  by (cases te; cases "snd te")
     (auto simp: step_def updateProgress_def handleGoBack_def split: if_splits option.splits)

lemma settled_run:
  "awaiting s = NotAwaiting \<and> completion_due s = None \<and> processingState s \<noteq> SUCCESS \<Longrightarrow>
   run props tes s = Some s' \<Longrightarrow>
   awaiting s' = NotAwaiting \<and> completion_due s' = None \<and> processingState s' \<noteq> SUCCESS"
proof (induction tes arbitrary: s)
  case Nil
  then show ?case by simp
next
  case (Cons te tes)
  from Cons.prems(2) obtain s1 where s1: "step props te s = Some s1"
    and r: "run props tes s1 = Some s'"
    by (auto split: option.splits)
  show ?case
    using Cons.IH [OF settled_step [OF Cons.prems(1) s1] r] .
qed

lemma tick_step:
  "step props (t, Tick) s = Some s' \<Longrightarrow>
   completion_due s' = completion_due s \<and> error s' = error s \<and>
   processingState s' = processingState s"
  by (auto simp: step_def updateProgress_def split: if_splits option.splits)

lemma ticks_run:
  "ticks_only tes \<Longrightarrow> run props tes s = Some s' \<Longrightarrow>
   completion_due s' = completion_due s \<and> error s' = error s \<and>
   processingState s' = processingState s"
proof (induction tes arbitrary: s)
  case Nil
  then show ?case by simp
next
  case (Cons te tes)
  obtain t e where te: "te = (t, e)" by (cases te)
  from Cons.prems(1) have e: "e = Tick" and ts: "ticks_only tes"
    by (simp_all add: ticks_only_def te)
  from Cons.prems(2) obtain s1 where s1: "step props (t, Tick) s = Some s1"
    and r: "run props tes s1 = Some s'"
    by (auto simp: te e split: option.splits)
  show ?case
    using Cons.IH [OF ts r] tick_step [OF s1] by simp
qed

text \<open>
  C1. A component is mounted at \<open>t0\<close> and any events other than go-back happen to it,
  leaving it in state \<open>s\<close>. Then a tick (\<open>updateProgress\<close>) does not lower the progress,
  nor do any further events without go-back; as long as the state is not \<open>SUCCESS\<close>,
  which only \<open>completeSubscribe\<close> sets, the progress is at most 95; and in state
  \<open>SUCCESS\<close> it is exactly 100.
\<close>

theorem progress_monotone_bounded:
  assumes "no_go_back tes" and "run props tes (useEffect props t0) = Some s"
  shows "progress s \<le> progress (updateProgress iid s) \<and>
         (\<forall>tes' s'. no_go_back tes' \<and> run props tes' s = Some s' \<longrightarrow> progress s \<le> progress s') \<and>
         (processingState s \<noteq> SUCCESS \<longrightarrow> progress s \<le> MAX_FAKE_PROGRESS \<and> progress s \<le> 95) \<and>
         (processingState s = SUCCESS \<longrightarrow> progress s = 100)"
proof -
  have inv: "attempt_inv t0 s"
    using attempt_inv_run [OF attempt_inv_useEffect assms(2)] .
  show ?thesis
    using inv run_progress_mono [OF inv] updateProgress_mono [of s iid]
    by (auto simp: attempt_inv_def MAX_FAKE_PROGRESS_def)
qed

theorem progress_monotone_bounded_witness:
  "no_go_back [(84, Tick), (168, Tick)] \<and>
   run \<lparr>teamToKeep = None, selectedProduct = Some ''cloud-professional''\<rparr> [(84, Tick), (168, Tick)] (useEffect \<lparr>teamToKeep = None, selectedProduct = Some ''cloud-professional''\<rparr> 0) = Some \<lparr>progress = 6, error = False, processingState = PROCESSING, intervalId = Some 1, intervals = [1], completion_due = None, awaiting = AwaitSubscribe 0, clock = 168, dispatched = [SubscribeCloudSubscription (Some ''cloud-professional'')], onBackCalls = 0\<rparr> \<and>
   progress \<lparr>progress = 6, error = False, processingState = PROCESSING, intervalId = Some 1, intervals = [1], completion_due = None, awaiting = AwaitSubscribe 0, clock = 168, dispatched = [SubscribeCloudSubscription (Some ''cloud-professional'')], onBackCalls = 0\<rparr> \<le> progress (updateProgress (Some 1) \<lparr>progress = 6, error = False, processingState = PROCESSING, intervalId = Some 1, intervals = [1], completion_due = None, awaiting = AwaitSubscribe 0, clock = 168, dispatched = [SubscribeCloudSubscription (Some ''cloud-professional'')], onBackCalls = 0\<rparr>) \<and>
   progress \<lparr>progress = 6, error = False, processingState = PROCESSING, intervalId = Some 1, intervals = [1], completion_due = None, awaiting = AwaitSubscribe 0, clock = 168, dispatched = [SubscribeCloudSubscription (Some ''cloud-professional'')], onBackCalls = 0\<rparr> \<le> 95 \<and>
   no_go_back [(9000, SubscribeResolved (JSBoolean True))] \<and>
   run \<lparr>teamToKeep = None, selectedProduct = Some ''cloud-professional''\<rparr> [(9000, SubscribeResolved (JSBoolean True))] \<lparr>progress = 6, error = False, processingState = PROCESSING, intervalId = Some 1, intervals = [1], completion_due = None, awaiting = AwaitSubscribe 0, clock = 168, dispatched = [SubscribeCloudSubscription (Some ''cloud-professional'')], onBackCalls = 0\<rparr> = Some \<lparr>progress = 100, error = False, processingState = SUCCESS, intervalId = Some 1, intervals = [], completion_due = None, awaiting = NotAwaiting, clock = 9000, dispatched = [SubscribeCloudSubscription (Some ''cloud-professional'')], onBackCalls = 0\<rparr> \<and>
   progress \<lparr>progress = 6, error = False, processingState = PROCESSING, intervalId = Some 1, intervals = [1], completion_due = None, awaiting = AwaitSubscribe 0, clock = 168, dispatched = [SubscribeCloudSubscription (Some ''cloud-professional'')], onBackCalls = 0\<rparr> \<le> progress \<lparr>progress = 100, error = False, processingState = SUCCESS, intervalId = Some 1, intervals = [], completion_due = None, awaiting = NotAwaiting, clock = 9000, dispatched = [SubscribeCloudSubscription (Some ''cloud-professional'')], onBackCalls = 0\<rparr> \<and>
   no_go_back [(84, Tick), (168, Tick), (9000, SubscribeResolved (JSBoolean True))] \<and>
   run \<lparr>teamToKeep = None, selectedProduct = Some ''cloud-professional''\<rparr> [(84, Tick), (168, Tick), (9000, SubscribeResolved (JSBoolean True))] (useEffect \<lparr>teamToKeep = None, selectedProduct = Some ''cloud-professional''\<rparr> 0)
     = Some \<lparr>progress = 100, error = False, processingState = SUCCESS, intervalId = Some 1, intervals = [], completion_due = None, awaiting = NotAwaiting, clock = 9000, dispatched = [SubscribeCloudSubscription (Some ''cloud-professional'')], onBackCalls = 0\<rparr> \<and>
   progress \<lparr>progress = 100, error = False, processingState = SUCCESS, intervalId = Some 1, intervals = [], completion_due = None, awaiting = NotAwaiting, clock = 9000, dispatched = [SubscribeCloudSubscription (Some ''cloud-professional'')], onBackCalls = 0\<rparr> = 100"
proof -
  have h1: "no_go_back [(84, Tick), (168, Tick)]"
    by code_simp
  have h2: "run \<lparr>teamToKeep = None, selectedProduct = Some ''cloud-professional''\<rparr> [(84, Tick), (168, Tick)] (useEffect \<lparr>teamToKeep = None, selectedProduct = Some ''cloud-professional''\<rparr> 0) = Some \<lparr>progress = 6, error = False, processingState = PROCESSING, intervalId = Some 1, intervals = [1], completion_due = None, awaiting = AwaitSubscribe 0, clock = 168, dispatched = [SubscribeCloudSubscription (Some ''cloud-professional'')], onBackCalls = 0\<rparr>"
    by code_simp
  have h3: "no_go_back [(9000, SubscribeResolved (JSBoolean True))]"
    by code_simp
  have h4: "run \<lparr>teamToKeep = None, selectedProduct = Some ''cloud-professional''\<rparr> [(9000, SubscribeResolved (JSBoolean True))] \<lparr>progress = 6, error = False, processingState = PROCESSING, intervalId = Some 1, intervals = [1], completion_due = None, awaiting = AwaitSubscribe 0, clock = 168, dispatched = [SubscribeCloudSubscription (Some ''cloud-professional'')], onBackCalls = 0\<rparr> = Some \<lparr>progress = 100, error = False, processingState = SUCCESS, intervalId = Some 1, intervals = [], completion_due = None, awaiting = NotAwaiting, clock = 9000, dispatched = [SubscribeCloudSubscription (Some ''cloud-professional'')], onBackCalls = 0\<rparr>"
    by code_simp
  have h5: "no_go_back [(84, Tick), (168, Tick), (9000, SubscribeResolved (JSBoolean True))]"
    by code_simp
  have h6: "run \<lparr>teamToKeep = None, selectedProduct = Some ''cloud-professional''\<rparr> [(84, Tick), (168, Tick), (9000, SubscribeResolved (JSBoolean True))]
      (useEffect \<lparr>teamToKeep = None, selectedProduct = Some ''cloud-professional''\<rparr> 0) = Some \<lparr>progress = 100, error = False, processingState = SUCCESS, intervalId = Some 1, intervals = [], completion_due = None, awaiting = NotAwaiting, clock = 9000, dispatched = [SubscribeCloudSubscription (Some ''cloud-professional'')], onBackCalls = 0\<rparr>"
    by code_simp
  show ?thesis
    using progress_monotone_bounded [OF h1 h2, of "Some 1"]
      progress_monotone_bounded [OF h5 h6, of "Some 1"] h1 h2 h3 h4 h5 h6
    by auto
qed

text \<open>
  C2. A component is mounted at \<open>start\<close>, the time \<open>handleSubscribe\<close> records, and any
  events happen to it. If its state is \<open>SUCCESS\<close>, at least 8000 ms have passed since
  \<open>start\<close>. When the subscription request is answered with a boolean at time \<open>t\<close>: if
  \<open>t - start\<close> is below 8000, the state stays \<open>PROCESSING\<close>, completion is scheduled
  \<open>8000 - (t - start)\<close> after \<open>t\<close> and cannot fire at \<open>t\<close>; otherwise
  \<open>completeSubscribe\<close> runs at once.
\<close>

theorem completion_after_minimum:
  assumes "run props tes (useEffect props start) = Some s"
  shows "(processingState s = SUCCESS \<longrightarrow> start + 8000 \<le> clock s) \<and>
         (\<forall>t v s'. step props (t, SubscribeResolved v) s = Some s' \<and> typeof v = ''boolean'' \<longrightarrow>
            (if t - start < 8000
             then processingState s' = PROCESSING \<and>
                  completion_due s' = Some (t + (8000 - (t - start))) \<and>
                  step props (t, CompletionTimeout) s' = None
             else s' = completeSubscribe (intervalId s) (s\<lparr>clock := t, awaiting := NotAwaiting\<rparr>) \<and>
                  processingState s' = SUCCESS))"
proof -
  have inv: "attempt_inv start s"
    using attempt_inv_run [OF attempt_inv_useEffect assms] .
  have a: "processingState s = SUCCESS \<longrightarrow> start + 8000 \<le> clock s"
    using inv by (simp add: attempt_inv_def MIN_PROCESSING_MILLISECONDS_def)
  have b: "if t - start < 8000
             then processingState s' = PROCESSING \<and>
                  completion_due s' = Some (t + (8000 - (t - start))) \<and>
                  step props (t, CompletionTimeout) s' = None
             else s' = completeSubscribe (intervalId s) (s\<lparr>clock := t, awaiting := NotAwaiting\<rparr>) \<and>
                  processingState s' = SUCCESS"
    if st: "step props (t, SubscribeResolved v) s = Some s'" and ty: "typeof v = ''boolean''"
    for t v s'
  proof -
    from st obtain st0 where aw: "awaiting s = AwaitSubscribe st0"
      and s': "s' = handleSubscribe_resolved st0 v t (s\<lparr>clock := t\<rparr>)"
      by (auto simp: step_SubscribeResolved)
    from inv aw have st0: "st0 = start" and pr: "processingState s = PROCESSING"
      by (auto simp: attempt_inv_def)
    show ?thesis
      using ty pr
      by (simp add: s' st0 handleSubscribe_resolved_def setTimeout_def completeSubscribe_def
          step_def Let_def MIN_PROCESSING_MILLISECONDS_def)
  qed
  from a b show ?thesis by blast
qed

theorem completion_after_minimum_witness:
  "run \<lparr>teamToKeep = None, selectedProduct = Some ''cloud-professional''\<rparr> [(84, Tick)] (useEffect \<lparr>teamToKeep = None, selectedProduct = Some ''cloud-professional''\<rparr> 0) = Some \<lparr>progress = 3, error = False, processingState = PROCESSING, intervalId = Some 1, intervals = [1], completion_due = None, awaiting = AwaitSubscribe 0, clock = 84, dispatched = [SubscribeCloudSubscription (Some ''cloud-professional'')], onBackCalls = 0\<rparr> \<and>
   step \<lparr>teamToKeep = None, selectedProduct = Some ''cloud-professional''\<rparr> (3000, SubscribeResolved (JSBoolean True)) \<lparr>progress = 3, error = False, processingState = PROCESSING, intervalId = Some 1, intervals = [1], completion_due = None, awaiting = AwaitSubscribe 0, clock = 84, dispatched = [SubscribeCloudSubscription (Some ''cloud-professional'')], onBackCalls = 0\<rparr> = Some \<lparr>progress = 3, error = False, processingState = PROCESSING, intervalId = Some 1, intervals = [1], completion_due = Some 8000, awaiting = NotAwaiting, clock = 3000, dispatched = [SubscribeCloudSubscription (Some ''cloud-professional'')], onBackCalls = 0\<rparr> \<and>
   typeof (JSBoolean True) = ''boolean'' \<and>
   processingState \<lparr>progress = 3, error = False, processingState = PROCESSING, intervalId = Some 1, intervals = [1], completion_due = Some 8000, awaiting = NotAwaiting, clock = 3000, dispatched = [SubscribeCloudSubscription (Some ''cloud-professional'')], onBackCalls = 0\<rparr> = PROCESSING \<and>
   completion_due \<lparr>progress = 3, error = False, processingState = PROCESSING, intervalId = Some 1, intervals = [1], completion_due = Some 8000, awaiting = NotAwaiting, clock = 3000, dispatched = [SubscribeCloudSubscription (Some ''cloud-professional'')], onBackCalls = 0\<rparr> = Some (3000 + (8000 - (3000 - 0))) \<and>
   step \<lparr>teamToKeep = None, selectedProduct = Some ''cloud-professional''\<rparr> (3000, CompletionTimeout) \<lparr>progress = 3, error = False, processingState = PROCESSING, intervalId = Some 1, intervals = [1], completion_due = Some 8000, awaiting = NotAwaiting, clock = 3000, dispatched = [SubscribeCloudSubscription (Some ''cloud-professional'')], onBackCalls = 0\<rparr> = None \<and>
   step \<lparr>teamToKeep = None, selectedProduct = Some ''cloud-professional''\<rparr> (9000, SubscribeResolved (JSBoolean True)) \<lparr>progress = 3, error = False, processingState = PROCESSING, intervalId = Some 1, intervals = [1], completion_due = None, awaiting = AwaitSubscribe 0, clock = 84, dispatched = [SubscribeCloudSubscription (Some ''cloud-professional'')], onBackCalls = 0\<rparr> = Some \<lparr>progress = 100, error = False, processingState = SUCCESS, intervalId = Some 1, intervals = [], completion_due = None, awaiting = NotAwaiting, clock = 9000, dispatched = [SubscribeCloudSubscription (Some ''cloud-professional'')], onBackCalls = 0\<rparr> \<and>
   processingState \<lparr>progress = 100, error = False, processingState = SUCCESS, intervalId = Some 1, intervals = [], completion_due = None, awaiting = NotAwaiting, clock = 9000, dispatched = [SubscribeCloudSubscription (Some ''cloud-professional'')], onBackCalls = 0\<rparr> = SUCCESS \<and>
   run \<lparr>teamToKeep = None, selectedProduct = Some ''cloud-professional''\<rparr> [(84, Tick), (9000, SubscribeResolved (JSBoolean True))] (useEffect \<lparr>teamToKeep = None, selectedProduct = Some ''cloud-professional''\<rparr> 0)
     = Some \<lparr>progress = 100, error = False, processingState = SUCCESS, intervalId = Some 1, intervals = [], completion_due = None, awaiting = NotAwaiting, clock = 9000, dispatched = [SubscribeCloudSubscription (Some ''cloud-professional'')], onBackCalls = 0\<rparr> \<and>
   (0::int) + 8000 \<le> clock \<lparr>progress = 100, error = False, processingState = SUCCESS, intervalId = Some 1, intervals = [], completion_due = None, awaiting = NotAwaiting, clock = 9000, dispatched = [SubscribeCloudSubscription (Some ''cloud-professional'')], onBackCalls = 0\<rparr>"
proof -
  have h1: "run \<lparr>teamToKeep = None, selectedProduct = Some ''cloud-professional''\<rparr> [(84, Tick)] (useEffect \<lparr>teamToKeep = None, selectedProduct = Some ''cloud-professional''\<rparr> 0) = Some \<lparr>progress = 3, error = False, processingState = PROCESSING, intervalId = Some 1, intervals = [1], completion_due = None, awaiting = AwaitSubscribe 0, clock = 84, dispatched = [SubscribeCloudSubscription (Some ''cloud-professional'')], onBackCalls = 0\<rparr>"
    by code_simp
  have h2: "step \<lparr>teamToKeep = None, selectedProduct = Some ''cloud-professional''\<rparr> (3000, SubscribeResolved (JSBoolean True)) \<lparr>progress = 3, error = False, processingState = PROCESSING, intervalId = Some 1, intervals = [1], completion_due = None, awaiting = AwaitSubscribe 0, clock = 84, dispatched = [SubscribeCloudSubscription (Some ''cloud-professional'')], onBackCalls = 0\<rparr> = Some \<lparr>progress = 3, error = False, processingState = PROCESSING, intervalId = Some 1, intervals = [1], completion_due = Some 8000, awaiting = NotAwaiting, clock = 3000, dispatched = [SubscribeCloudSubscription (Some ''cloud-professional'')], onBackCalls = 0\<rparr>"
    by code_simp
  have h3: "step \<lparr>teamToKeep = None, selectedProduct = Some ''cloud-professional''\<rparr> (9000, SubscribeResolved (JSBoolean True)) \<lparr>progress = 3, error = False, processingState = PROCESSING, intervalId = Some 1, intervals = [1], completion_due = None, awaiting = AwaitSubscribe 0, clock = 84, dispatched = [SubscribeCloudSubscription (Some ''cloud-professional'')], onBackCalls = 0\<rparr> = Some \<lparr>progress = 100, error = False, processingState = SUCCESS, intervalId = Some 1, intervals = [], completion_due = None, awaiting = NotAwaiting, clock = 9000, dispatched = [SubscribeCloudSubscription (Some ''cloud-professional'')], onBackCalls = 0\<rparr>"
    by code_simp
  have h4: "run \<lparr>teamToKeep = None, selectedProduct = Some ''cloud-professional''\<rparr> [(84, Tick), (9000, SubscribeResolved (JSBoolean True))] (useEffect \<lparr>teamToKeep = None, selectedProduct = Some ''cloud-professional''\<rparr> 0)
      = Some \<lparr>progress = 100, error = False, processingState = SUCCESS, intervalId = Some 1, intervals = [], completion_due = None, awaiting = NotAwaiting, clock = 9000, dispatched = [SubscribeCloudSubscription (Some ''cloud-professional'')], onBackCalls = 0\<rparr>"
    by code_simp
  have ty: "typeof (JSBoolean True) = ''boolean''"
    by simp
  have lt: "(3000::int) - 0 < 8000" and ge: "\<not> (9000::int) - 0 < 8000"
    by simp_all
  note w = completion_after_minimum [OF h1, THEN conjunct2, rule_format]
  have c1: "processingState \<lparr>progress = 3, error = False, processingState = PROCESSING, intervalId = Some 1, intervals = [1], completion_due = Some 8000, awaiting = NotAwaiting, clock = 3000, dispatched = [SubscribeCloudSubscription (Some ''cloud-professional'')], onBackCalls = 0\<rparr> = PROCESSING \<and>
      completion_due \<lparr>progress = 3, error = False, processingState = PROCESSING, intervalId = Some 1, intervals = [1], completion_due = Some 8000, awaiting = NotAwaiting, clock = 3000, dispatched = [SubscribeCloudSubscription (Some ''cloud-professional'')], onBackCalls = 0\<rparr> = Some (3000 + (8000 - (3000 - 0))) \<and>
      step \<lparr>teamToKeep = None, selectedProduct = Some ''cloud-professional''\<rparr> (3000, CompletionTimeout) \<lparr>progress = 3, error = False, processingState = PROCESSING, intervalId = Some 1, intervals = [1], completion_due = Some 8000, awaiting = NotAwaiting, clock = 3000, dispatched = [SubscribeCloudSubscription (Some ''cloud-professional'')], onBackCalls = 0\<rparr> = None"
    using w [OF conjI [OF h2 ty], unfolded if_P [OF lt]] .
  have c2: "processingState \<lparr>progress = 100, error = False, processingState = SUCCESS, intervalId = Some 1, intervals = [], completion_due = None, awaiting = NotAwaiting, clock = 9000, dispatched = [SubscribeCloudSubscription (Some ''cloud-professional'')], onBackCalls = 0\<rparr> = SUCCESS"
    using w [OF conjI [OF h3 ty], unfolded if_not_P [OF ge], THEN conjunct2] .
  have c3: "(0::int) + 8000 \<le> clock \<lparr>progress = 100, error = False, processingState = SUCCESS, intervalId = Some 1, intervals = [], completion_due = None, awaiting = NotAwaiting, clock = 9000, dispatched = [SubscribeCloudSubscription (Some ''cloud-professional'')], onBackCalls = 0\<rparr>"
    using completion_after_minimum [OF h4, THEN conjunct1] by simp
  from h1 h2 h3 h4 ty c1 c2 c3 show ?thesis
    by blast
qed

text \<open>
  C3. When the answer \<open>v\<close> to the subscription request is not a boolean, the rest of
  \<open>handleSubscribe\<close> sets the error flag, enters \<open>FAILED\<close> and schedules no completion.
  And whatever happened to the mounted component before that answer and whatever happens
  after it, go-back included, the state is never \<open>SUCCESS\<close> afterwards.
\<close>

theorem non_boolean_result_fails:
  assumes "typeof v \<noteq> ''boolean''"
  shows "error (handleSubscribe_resolved start v now s) \<and>
         processingState (handleSubscribe_resolved start v now s) = FAILED \<and>
         completion_due (handleSubscribe_resolved start v now s) = completion_due s \<and>
         (\<forall>props t0 tes s1 t s2 tes' s3.
            run props tes (useEffect props t0) = Some s1 \<and>
            step props (t, SubscribeResolved v) s1 = Some s2 \<and>
            run props tes' s2 = Some s3 \<longrightarrow>
            error s2 \<and> processingState s2 = FAILED \<and> processingState s3 \<noteq> SUCCESS)"
proof -
  have f: "error (handleSubscribe_resolved st v n x) \<and>
           processingState (handleSubscribe_resolved st v n x) = FAILED \<and>
           completion_due (handleSubscribe_resolved st v n x) = completion_due x \<and>
           awaiting (handleSubscribe_resolved st v n x) = NotAwaiting" for st n x
    using assms by (simp add: handleSubscribe_resolved_def Let_def)
  have tr: "error s2 \<and> processingState s2 = FAILED \<and> processingState s3 \<noteq> SUCCESS"
    if h: "run props tes (useEffect props t0) = Some s1"
      and st: "step props (t, SubscribeResolved v) s1 = Some s2"
      and r: "run props tes' s2 = Some s3"
    for props t0 tes s1 t s2 tes' s3
  proof -
    have inv: "attempt_inv t0 s1"
      using attempt_inv_run [OF attempt_inv_useEffect h] .
    from st obtain st0 where aw: "awaiting s1 = AwaitSubscribe st0"
      and s2: "s2 = handleSubscribe_resolved st0 v t (s1\<lparr>clock := t\<rparr>)"
      by (auto simp: step_SubscribeResolved)
    from inv aw have due: "completion_due s1 = None"
      by (auto simp: attempt_inv_def)
    have settled: "awaiting s2 = NotAwaiting \<and> completion_due s2 = None \<and>
        processingState s2 \<noteq> SUCCESS"
      using f [of st0 t "s1\<lparr>clock := t\<rparr>"] due by (simp add: s2)
    show ?thesis
      using settled_run [OF settled r] f [of st0 t "s1\<lparr>clock := t\<rparr>"] by (simp add: s2)
  qed
  show ?thesis
    using f [of start now s] tr by blast
qed

theorem non_boolean_result_fails_witness:
  "typeof (JSObject [(''error'', ''card declined'')]) \<noteq> ''boolean'' \<and>
   error (handleSubscribe_resolved 0 (JSObject [(''error'', ''card declined'')]) 3000 \<lparr>progress = 3, error = False, processingState = PROCESSING, intervalId = Some 1, intervals = [1], completion_due = None, awaiting = AwaitSubscribe 0, clock = 84, dispatched = [SubscribeCloudSubscription (Some ''cloud-professional'')], onBackCalls = 0\<rparr>) \<and>
   processingState (handleSubscribe_resolved 0 (JSObject [(''error'', ''card declined'')]) 3000 \<lparr>progress = 3, error = False, processingState = PROCESSING, intervalId = Some 1, intervals = [1], completion_due = None, awaiting = AwaitSubscribe 0, clock = 84, dispatched = [SubscribeCloudSubscription (Some ''cloud-professional'')], onBackCalls = 0\<rparr>) = FAILED \<and>
   run \<lparr>teamToKeep = None, selectedProduct = Some ''cloud-professional''\<rparr> [(84, Tick)] (useEffect \<lparr>teamToKeep = None, selectedProduct = Some ''cloud-professional''\<rparr> 0) = Some \<lparr>progress = 3, error = False, processingState = PROCESSING, intervalId = Some 1, intervals = [1], completion_due = None, awaiting = AwaitSubscribe 0, clock = 84, dispatched = [SubscribeCloudSubscription (Some ''cloud-professional'')], onBackCalls = 0\<rparr> \<and>
   step \<lparr>teamToKeep = None, selectedProduct = Some ''cloud-professional''\<rparr> (3000, SubscribeResolved (JSObject [(''error'', ''card declined'')])) \<lparr>progress = 3, error = False, processingState = PROCESSING, intervalId = Some 1, intervals = [1], completion_due = None, awaiting = AwaitSubscribe 0, clock = 84, dispatched = [SubscribeCloudSubscription (Some ''cloud-professional'')], onBackCalls = 0\<rparr> = Some \<lparr>progress = 3, error = True, processingState = FAILED, intervalId = Some 1, intervals = [1], completion_due = None, awaiting = NotAwaiting, clock = 3000, dispatched = [SubscribeCloudSubscription (Some ''cloud-professional'')], onBackCalls = 0\<rparr> \<and>
   run \<lparr>teamToKeep = None, selectedProduct = Some ''cloud-professional''\<rparr> [(4000, GoBack None), (4084, Tick)] \<lparr>progress = 3, error = True, processingState = FAILED, intervalId = Some 1, intervals = [1], completion_due = None, awaiting = NotAwaiting, clock = 3000, dispatched = [SubscribeCloudSubscription (Some ''cloud-professional'')], onBackCalls = 0\<rparr> = Some \<lparr>progress = 3, error = False, processingState = PROCESSING, intervalId = Some 1, intervals = [1], completion_due = None, awaiting = NotAwaiting, clock = 4084, dispatched = [SubscribeCloudSubscription (Some ''cloud-professional'')], onBackCalls = 1\<rparr> \<and>
   error \<lparr>progress = 3, error = True, processingState = FAILED, intervalId = Some 1, intervals = [1], completion_due = None, awaiting = NotAwaiting, clock = 3000, dispatched = [SubscribeCloudSubscription (Some ''cloud-professional'')], onBackCalls = 0\<rparr> \<and> processingState \<lparr>progress = 3, error = True, processingState = FAILED, intervalId = Some 1, intervals = [1], completion_due = None, awaiting = NotAwaiting, clock = 3000, dispatched = [SubscribeCloudSubscription (Some ''cloud-professional'')], onBackCalls = 0\<rparr> = FAILED \<and>
   processingState \<lparr>progress = 3, error = False, processingState = PROCESSING, intervalId = Some 1, intervals = [1], completion_due = None, awaiting = NotAwaiting, clock = 4084, dispatched = [SubscribeCloudSubscription (Some ''cloud-professional'')], onBackCalls = 1\<rparr> \<noteq> SUCCESS"
proof -
  have ty: "typeof (JSObject [(''error'', ''card declined'')]) \<noteq> ''boolean''"
    by simp
  have h1: "run \<lparr>teamToKeep = None, selectedProduct = Some ''cloud-professional''\<rparr> [(84, Tick)] (useEffect \<lparr>teamToKeep = None, selectedProduct = Some ''cloud-professional''\<rparr> 0) = Some \<lparr>progress = 3, error = False, processingState = PROCESSING, intervalId = Some 1, intervals = [1], completion_due = None, awaiting = AwaitSubscribe 0, clock = 84, dispatched = [SubscribeCloudSubscription (Some ''cloud-professional'')], onBackCalls = 0\<rparr>"
    by code_simp
  have h2: "step \<lparr>teamToKeep = None, selectedProduct = Some ''cloud-professional''\<rparr> (3000, SubscribeResolved (JSObject [(''error'', ''card declined'')])) \<lparr>progress = 3, error = False, processingState = PROCESSING, intervalId = Some 1, intervals = [1], completion_due = None, awaiting = AwaitSubscribe 0, clock = 84, dispatched = [SubscribeCloudSubscription (Some ''cloud-professional'')], onBackCalls = 0\<rparr> = Some \<lparr>progress = 3, error = True, processingState = FAILED, intervalId = Some 1, intervals = [1], completion_due = None, awaiting = NotAwaiting, clock = 3000, dispatched = [SubscribeCloudSubscription (Some ''cloud-professional'')], onBackCalls = 0\<rparr>"
    by code_simp
  have h3: "run \<lparr>teamToKeep = None, selectedProduct = Some ''cloud-professional''\<rparr> [(4000, GoBack None), (4084, Tick)] \<lparr>progress = 3, error = True, processingState = FAILED, intervalId = Some 1, intervals = [1], completion_due = None, awaiting = NotAwaiting, clock = 3000, dispatched = [SubscribeCloudSubscription (Some ''cloud-professional'')], onBackCalls = 0\<rparr> = Some \<lparr>progress = 3, error = False, processingState = PROCESSING, intervalId = Some 1, intervals = [1], completion_due = None, awaiting = NotAwaiting, clock = 4084, dispatched = [SubscribeCloudSubscription (Some ''cloud-professional'')], onBackCalls = 1\<rparr>"
    by code_simp
  note w = non_boolean_result_fails [OF ty, of 0 3000 "\<lparr>progress = 3, error = False, processingState = PROCESSING, intervalId = Some 1, intervals = [1], completion_due = None, awaiting = AwaitSubscribe 0, clock = 84, dispatched = [SubscribeCloudSubscription (Some ''cloud-professional'')], onBackCalls = 0\<rparr>"]
  have c1: "error (handleSubscribe_resolved 0 (JSObject [(''error'', ''card declined'')]) 3000 \<lparr>progress = 3, error = False, processingState = PROCESSING, intervalId = Some 1, intervals = [1], completion_due = None, awaiting = AwaitSubscribe 0, clock = 84, dispatched = [SubscribeCloudSubscription (Some ''cloud-professional'')], onBackCalls = 0\<rparr>) \<and>
      processingState (handleSubscribe_resolved 0 (JSObject [(''error'', ''card declined'')]) 3000 \<lparr>progress = 3, error = False, processingState = PROCESSING, intervalId = Some 1, intervals = [1], completion_due = None, awaiting = AwaitSubscribe 0, clock = 84, dispatched = [SubscribeCloudSubscription (Some ''cloud-professional'')], onBackCalls = 0\<rparr>) = FAILED"
    using w by blast
  have c2: "error \<lparr>progress = 3, error = True, processingState = FAILED, intervalId = Some 1, intervals = [1], completion_due = None, awaiting = NotAwaiting, clock = 3000, dispatched = [SubscribeCloudSubscription (Some ''cloud-professional'')], onBackCalls = 0\<rparr> \<and> processingState \<lparr>progress = 3, error = True, processingState = FAILED, intervalId = Some 1, intervals = [1], completion_due = None, awaiting = NotAwaiting, clock = 3000, dispatched = [SubscribeCloudSubscription (Some ''cloud-professional'')], onBackCalls = 0\<rparr> = FAILED \<and>
      processingState \<lparr>progress = 3, error = False, processingState = PROCESSING, intervalId = Some 1, intervals = [1], completion_due = None, awaiting = NotAwaiting, clock = 4084, dispatched = [SubscribeCloudSubscription (Some ''cloud-professional'')], onBackCalls = 1\<rparr> \<noteq> SUCCESS"
    using w [THEN conjunct2, THEN conjunct2, THEN conjunct2, rule_format,
        OF conjI [OF h1 conjI [OF h2 h3]]] .
  from ty h1 h2 h3 c1 c2 show ?thesis
    by blast
qed

text \<open>
  C6. In every state, and whatever its \<open>intervalId\<close> holds, \<open>handleGoBack\<close> sets the
  progress to 0, the error flag to false and the state to \<open>PROCESSING\<close>, and calls
  \<open>props.onBack\<close> once. It dispatches nothing, so the subscription request is not issued
  again, and it leaves what is awaited or scheduled as it was. The same holds of the
  go-back event of the mounted component.
\<close>

theorem go_back_resets:
  "progress (handleGoBack iid s) = 0 \<and>
   error (handleGoBack iid s) = False \<and>
   processingState (handleGoBack iid s) = PROCESSING \<and>
   onBackCalls (handleGoBack iid s) = Suc (onBackCalls s) \<and>
   dispatched (handleGoBack iid s) = dispatched s \<and>
   awaiting (handleGoBack iid s) = awaiting s \<and>
   completion_due (handleGoBack iid s) = completion_due s \<and>
   (\<forall>props t s'. step props (t, GoBack iid) s = Some s' \<longrightarrow>
      progress s' = 0 \<and> \<not> error s' \<and> processingState s' = PROCESSING \<and>
      onBackCalls s' = Suc (onBackCalls s) \<and> dispatched s' = dispatched s)"
  by (auto simp: handleGoBack_def step_def split: if_splits)

theorem go_back_resets_witness:
  "step \<lparr>teamToKeep = None, selectedProduct = Some ''cloud-professional''\<rparr> (4000, GoBack None) \<lparr>progress = 3, error = True, processingState = FAILED, intervalId = Some 1, intervals = [1], completion_due = None, awaiting = NotAwaiting, clock = 3000, dispatched = [SubscribeCloudSubscription (Some ''cloud-professional'')], onBackCalls = 0\<rparr> = Some \<lparr>progress = 0, error = False, processingState = PROCESSING, intervalId = Some 1, intervals = [1], completion_due = None, awaiting = NotAwaiting, clock = 4000, dispatched = [SubscribeCloudSubscription (Some ''cloud-professional'')], onBackCalls = 1\<rparr> \<and>
   progress \<lparr>progress = 0, error = False, processingState = PROCESSING, intervalId = Some 1, intervals = [1], completion_due = None, awaiting = NotAwaiting, clock = 4000, dispatched = [SubscribeCloudSubscription (Some ''cloud-professional'')], onBackCalls = 1\<rparr> = 0 \<and> \<not> error \<lparr>progress = 0, error = False, processingState = PROCESSING, intervalId = Some 1, intervals = [1], completion_due = None, awaiting = NotAwaiting, clock = 4000, dispatched = [SubscribeCloudSubscription (Some ''cloud-professional'')], onBackCalls = 1\<rparr> \<and> processingState \<lparr>progress = 0, error = False, processingState = PROCESSING, intervalId = Some 1, intervals = [1], completion_due = None, awaiting = NotAwaiting, clock = 4000, dispatched = [SubscribeCloudSubscription (Some ''cloud-professional'')], onBackCalls = 1\<rparr> = PROCESSING \<and>
   onBackCalls \<lparr>progress = 0, error = False, processingState = PROCESSING, intervalId = Some 1, intervals = [1], completion_due = None, awaiting = NotAwaiting, clock = 4000, dispatched = [SubscribeCloudSubscription (Some ''cloud-professional'')], onBackCalls = 1\<rparr> = Suc (onBackCalls \<lparr>progress = 3, error = True, processingState = FAILED, intervalId = Some 1, intervals = [1], completion_due = None, awaiting = NotAwaiting, clock = 3000, dispatched = [SubscribeCloudSubscription (Some ''cloud-professional'')], onBackCalls = 0\<rparr>) \<and>
   dispatched \<lparr>progress = 0, error = False, processingState = PROCESSING, intervalId = Some 1, intervals = [1], completion_due = None, awaiting = NotAwaiting, clock = 4000, dispatched = [SubscribeCloudSubscription (Some ''cloud-professional'')], onBackCalls = 1\<rparr> = dispatched \<lparr>progress = 3, error = True, processingState = FAILED, intervalId = Some 1, intervals = [1], completion_due = None, awaiting = NotAwaiting, clock = 3000, dispatched = [SubscribeCloudSubscription (Some ''cloud-professional'')], onBackCalls = 0\<rparr> \<and>
   progress (handleGoBack (Some 1) \<lparr>progress = 3, error = True, processingState = FAILED, intervalId = Some 1, intervals = [1], completion_due = None, awaiting = NotAwaiting, clock = 3000, dispatched = [SubscribeCloudSubscription (Some ''cloud-professional'')], onBackCalls = 0\<rparr>) = 0"
proof -
  have h: "step \<lparr>teamToKeep = None, selectedProduct = Some ''cloud-professional''\<rparr> (4000, GoBack None) \<lparr>progress = 3, error = True, processingState = FAILED, intervalId = Some 1, intervals = [1], completion_due = None, awaiting = NotAwaiting, clock = 3000, dispatched = [SubscribeCloudSubscription (Some ''cloud-professional'')], onBackCalls = 0\<rparr> = Some \<lparr>progress = 0, error = False, processingState = PROCESSING, intervalId = Some 1, intervals = [1], completion_due = None, awaiting = NotAwaiting, clock = 4000, dispatched = [SubscribeCloudSubscription (Some ''cloud-professional'')], onBackCalls = 1\<rparr>"
    by code_simp
  note w = go_back_resets [of None "\<lparr>progress = 3, error = True, processingState = FAILED, intervalId = Some 1, intervals = [1], completion_due = None, awaiting = NotAwaiting, clock = 3000, dispatched = [SubscribeCloudSubscription (Some ''cloud-professional'')], onBackCalls = 0\<rparr>"]
  have c1: "progress \<lparr>progress = 0, error = False, processingState = PROCESSING, intervalId = Some 1, intervals = [1], completion_due = None, awaiting = NotAwaiting, clock = 4000, dispatched = [SubscribeCloudSubscription (Some ''cloud-professional'')], onBackCalls = 1\<rparr> = 0 \<and> \<not> error \<lparr>progress = 0, error = False, processingState = PROCESSING, intervalId = Some 1, intervals = [1], completion_due = None, awaiting = NotAwaiting, clock = 4000, dispatched = [SubscribeCloudSubscription (Some ''cloud-professional'')], onBackCalls = 1\<rparr> \<and> processingState \<lparr>progress = 0, error = False, processingState = PROCESSING, intervalId = Some 1, intervals = [1], completion_due = None, awaiting = NotAwaiting, clock = 4000, dispatched = [SubscribeCloudSubscription (Some ''cloud-professional'')], onBackCalls = 1\<rparr> = PROCESSING \<and>
      onBackCalls \<lparr>progress = 0, error = False, processingState = PROCESSING, intervalId = Some 1, intervals = [1], completion_due = None, awaiting = NotAwaiting, clock = 4000, dispatched = [SubscribeCloudSubscription (Some ''cloud-professional'')], onBackCalls = 1\<rparr> = Suc (onBackCalls \<lparr>progress = 3, error = True, processingState = FAILED, intervalId = Some 1, intervals = [1], completion_due = None, awaiting = NotAwaiting, clock = 3000, dispatched = [SubscribeCloudSubscription (Some ''cloud-professional'')], onBackCalls = 0\<rparr>) \<and>
      dispatched \<lparr>progress = 0, error = False, processingState = PROCESSING, intervalId = Some 1, intervals = [1], completion_due = None, awaiting = NotAwaiting, clock = 4000, dispatched = [SubscribeCloudSubscription (Some ''cloud-professional'')], onBackCalls = 1\<rparr> = dispatched \<lparr>progress = 3, error = True, processingState = FAILED, intervalId = Some 1, intervals = [1], completion_due = None, awaiting = NotAwaiting, clock = 3000, dispatched = [SubscribeCloudSubscription (Some ''cloud-professional'')], onBackCalls = 0\<rparr>"
    using w [THEN conjunct2, THEN conjunct2, THEN conjunct2, THEN conjunct2, THEN conjunct2,
        THEN conjunct2, THEN conjunct2, rule_format, OF h] .
  have c2: "progress (handleGoBack (Some 1) \<lparr>progress = 3, error = True, processingState = FAILED, intervalId = Some 1, intervals = [1], completion_due = None, awaiting = NotAwaiting, clock = 3000, dispatched = [SubscribeCloudSubscription (Some ''cloud-professional'')], onBackCalls = 0\<rparr>) = 0"
    using go_back_resets [of "Some 1" "\<lparr>progress = 3, error = True, processingState = FAILED, intervalId = Some 1, intervals = [1], completion_due = None, awaiting = NotAwaiting, clock = 3000, dispatched = [SubscribeCloudSubscription (Some ''cloud-professional'')], onBackCalls = 0\<rparr>"] by blast
  from h c1 c2 show ?thesis
    by blast
qed

text \<open>
  C8. A component is mounted at \<open>start\<close> and the subscription request is answered with
  the boolean \<open>false\<close> at time \<open>t\<close>. The resulting state is the one the answer \<open>true\<close>
  gives, and the error flag is unset. If \<open>t - start\<close> is at least 8000 the state is
  \<open>SUCCESS\<close> at once; otherwise it stays \<open>PROCESSING\<close>, and after any ticks the completion
  timeout can fire at every time from \<open>start + 8000\<close> on, and gives \<open>SUCCESS\<close> with the
  error flag unset.
\<close>

theorem false_result_completes:
  assumes "run props tes (useEffect props start) = Some s"
    and "step props (t, SubscribeResolved (JSBoolean False)) s = Some s1"
  shows "step props (t, SubscribeResolved (JSBoolean True)) s = Some s1 \<and>
         \<not> error s1 \<and>
         (if t - start < 8000
          then processingState s1 = PROCESSING \<and>
               (\<forall>ticks s2 t'.
                  ticks_only ticks \<and> run props ticks s1 = Some s2 \<and>
                  clock s2 \<le> t' \<and> start + 8000 \<le> t' \<longrightarrow>
                  (\<exists>s3. step props (t', CompletionTimeout) s2 = Some s3 \<and>
                        processingState s3 = SUCCESS \<and> \<not> error s3))
          else processingState s1 = SUCCESS)"
proof -
  have inv: "attempt_inv start s"
    using attempt_inv_run [OF attempt_inv_useEffect assms(1)] .
  from assms(2) obtain st0 where aw: "awaiting s = AwaitSubscribe st0" and tc: "clock s \<le> t"
    and s1: "s1 = handleSubscribe_resolved st0 (JSBoolean False) t (s\<lparr>clock := t\<rparr>)"
    by (auto simp: step_SubscribeResolved)
  from inv aw have st0: "st0 = start" and pr: "processingState s = PROCESSING"
    and er: "\<not> error s"
    by (auto simp: attempt_inv_def)
  have same: "handleSubscribe_resolved st0 (JSBoolean False) t (s\<lparr>clock := t\<rparr>)
        = handleSubscribe_resolved st0 (JSBoolean True) t (s\<lparr>clock := t\<rparr>)"
    by (simp add: handleSubscribe_resolved_def)
  have a: "step props (t, SubscribeResolved (JSBoolean True)) s = Some s1"
    using aw tc by (simp add: step_SubscribeResolved s1 same)
  have b: "\<not> error s1"
    using er by (simp add: s1 handleSubscribe_resolved_def setTimeout_def completeSubscribe_def
        Let_def)
  have c: "processingState s1 = SUCCESS" if "\<not> t - start < 8000"
    using that by (simp add: s1 st0 handleSubscribe_resolved_def completeSubscribe_def Let_def
        MIN_PROCESSING_MILLISECONDS_def)
  have d: "processingState s1 = PROCESSING \<and> completion_due s1 = Some (start + 8000)"
    if "t - start < 8000"
    using that pr by (simp add: s1 st0 handleSubscribe_resolved_def setTimeout_def Let_def
        MIN_PROCESSING_MILLISECONDS_def)
  have e: "\<exists>s3. step props (t', CompletionTimeout) s2 = Some s3 \<and>
                processingState s3 = SUCCESS \<and> \<not> error s3"
    if lt: "t - start < 8000" and tk: "ticks_only ticks"
      and r: "run props ticks s1 = Some s2" and t': "clock s2 \<le> t'" "start + 8000 \<le> t'"
    for ticks s2 t'
    using ticks_run [OF tk r] d [OF lt] b t'
    by (simp add: step_def completeSubscribe_def)
  show ?thesis
    using a b c d e by auto
qed

theorem false_result_completes_witness:
  "run \<lparr>teamToKeep = None, selectedProduct = Some ''cloud-professional''\<rparr> [(84, Tick)] (useEffect \<lparr>teamToKeep = None, selectedProduct = Some ''cloud-professional''\<rparr> 0) = Some \<lparr>progress = 3, error = False, processingState = PROCESSING, intervalId = Some 1, intervals = [1], completion_due = None, awaiting = AwaitSubscribe 0, clock = 84, dispatched = [SubscribeCloudSubscription (Some ''cloud-professional'')], onBackCalls = 0\<rparr> \<and>
   step \<lparr>teamToKeep = None, selectedProduct = Some ''cloud-professional''\<rparr> (3000, SubscribeResolved (JSBoolean False)) \<lparr>progress = 3, error = False, processingState = PROCESSING, intervalId = Some 1, intervals = [1], completion_due = None, awaiting = AwaitSubscribe 0, clock = 84, dispatched = [SubscribeCloudSubscription (Some ''cloud-professional'')], onBackCalls = 0\<rparr> = Some \<lparr>progress = 3, error = False, processingState = PROCESSING, intervalId = Some 1, intervals = [1], completion_due = Some 8000, awaiting = NotAwaiting, clock = 3000, dispatched = [SubscribeCloudSubscription (Some ''cloud-professional'')], onBackCalls = 0\<rparr> \<and>
   step \<lparr>teamToKeep = None, selectedProduct = Some ''cloud-professional''\<rparr> (3000, SubscribeResolved (JSBoolean True)) \<lparr>progress = 3, error = False, processingState = PROCESSING, intervalId = Some 1, intervals = [1], completion_due = None, awaiting = AwaitSubscribe 0, clock = 84, dispatched = [SubscribeCloudSubscription (Some ''cloud-professional'')], onBackCalls = 0\<rparr> = Some \<lparr>progress = 3, error = False, processingState = PROCESSING, intervalId = Some 1, intervals = [1], completion_due = Some 8000, awaiting = NotAwaiting, clock = 3000, dispatched = [SubscribeCloudSubscription (Some ''cloud-professional'')], onBackCalls = 0\<rparr> \<and>
   \<not> error \<lparr>progress = 3, error = False, processingState = PROCESSING, intervalId = Some 1, intervals = [1], completion_due = Some 8000, awaiting = NotAwaiting, clock = 3000, dispatched = [SubscribeCloudSubscription (Some ''cloud-professional'')], onBackCalls = 0\<rparr> \<and> processingState \<lparr>progress = 3, error = False, processingState = PROCESSING, intervalId = Some 1, intervals = [1], completion_due = Some 8000, awaiting = NotAwaiting, clock = 3000, dispatched = [SubscribeCloudSubscription (Some ''cloud-professional'')], onBackCalls = 0\<rparr> = PROCESSING \<and>
   ticks_only [(3084, Tick)] \<and>
   run \<lparr>teamToKeep = None, selectedProduct = Some ''cloud-professional''\<rparr> [(3084, Tick)] \<lparr>progress = 3, error = False, processingState = PROCESSING, intervalId = Some 1, intervals = [1], completion_due = Some 8000, awaiting = NotAwaiting, clock = 3000, dispatched = [SubscribeCloudSubscription (Some ''cloud-professional'')], onBackCalls = 0\<rparr> = Some \<lparr>progress = 6, error = False, processingState = PROCESSING, intervalId = Some 1, intervals = [1], completion_due = Some 8000, awaiting = NotAwaiting, clock = 3084, dispatched = [SubscribeCloudSubscription (Some ''cloud-professional'')], onBackCalls = 0\<rparr> \<and>
   step \<lparr>teamToKeep = None, selectedProduct = Some ''cloud-professional''\<rparr> (8000, CompletionTimeout) \<lparr>progress = 6, error = False, processingState = PROCESSING, intervalId = Some 1, intervals = [1], completion_due = Some 8000, awaiting = NotAwaiting, clock = 3084, dispatched = [SubscribeCloudSubscription (Some ''cloud-professional'')], onBackCalls = 0\<rparr> = Some \<lparr>progress = 100, error = False, processingState = SUCCESS, intervalId = Some 1, intervals = [], completion_due = None, awaiting = NotAwaiting, clock = 8000, dispatched = [SubscribeCloudSubscription (Some ''cloud-professional'')], onBackCalls = 0\<rparr> \<and>
   processingState \<lparr>progress = 100, error = False, processingState = SUCCESS, intervalId = Some 1, intervals = [], completion_due = None, awaiting = NotAwaiting, clock = 8000, dispatched = [SubscribeCloudSubscription (Some ''cloud-professional'')], onBackCalls = 0\<rparr> = SUCCESS \<and> \<not> error \<lparr>progress = 100, error = False, processingState = SUCCESS, intervalId = Some 1, intervals = [], completion_due = None, awaiting = NotAwaiting, clock = 8000, dispatched = [SubscribeCloudSubscription (Some ''cloud-professional'')], onBackCalls = 0\<rparr> \<and>
   step \<lparr>teamToKeep = None, selectedProduct = Some ''cloud-professional''\<rparr> (9000, SubscribeResolved (JSBoolean False)) \<lparr>progress = 3, error = False, processingState = PROCESSING, intervalId = Some 1, intervals = [1], completion_due = None, awaiting = AwaitSubscribe 0, clock = 84, dispatched = [SubscribeCloudSubscription (Some ''cloud-professional'')], onBackCalls = 0\<rparr> = Some \<lparr>progress = 100, error = False, processingState = SUCCESS, intervalId = Some 1, intervals = [], completion_due = None, awaiting = NotAwaiting, clock = 9000, dispatched = [SubscribeCloudSubscription (Some ''cloud-professional'')], onBackCalls = 0\<rparr> \<and>
   processingState \<lparr>progress = 100, error = False, processingState = SUCCESS, intervalId = Some 1, intervals = [], completion_due = None, awaiting = NotAwaiting, clock = 9000, dispatched = [SubscribeCloudSubscription (Some ''cloud-professional'')], onBackCalls = 0\<rparr> = SUCCESS"
proof -
  have h1: "run \<lparr>teamToKeep = None, selectedProduct = Some ''cloud-professional''\<rparr> [(84, Tick)] (useEffect \<lparr>teamToKeep = None, selectedProduct = Some ''cloud-professional''\<rparr> 0) = Some \<lparr>progress = 3, error = False, processingState = PROCESSING, intervalId = Some 1, intervals = [1], completion_due = None, awaiting = AwaitSubscribe 0, clock = 84, dispatched = [SubscribeCloudSubscription (Some ''cloud-professional'')], onBackCalls = 0\<rparr>"
    by code_simp
  have h2: "step \<lparr>teamToKeep = None, selectedProduct = Some ''cloud-professional''\<rparr> (3000, SubscribeResolved (JSBoolean False)) \<lparr>progress = 3, error = False, processingState = PROCESSING, intervalId = Some 1, intervals = [1], completion_due = None, awaiting = AwaitSubscribe 0, clock = 84, dispatched = [SubscribeCloudSubscription (Some ''cloud-professional'')], onBackCalls = 0\<rparr> = Some \<lparr>progress = 3, error = False, processingState = PROCESSING, intervalId = Some 1, intervals = [1], completion_due = Some 8000, awaiting = NotAwaiting, clock = 3000, dispatched = [SubscribeCloudSubscription (Some ''cloud-professional'')], onBackCalls = 0\<rparr>"
    by code_simp
  have h3: "ticks_only [(3084, Tick)]"
    by code_simp
  have h4: "run \<lparr>teamToKeep = None, selectedProduct = Some ''cloud-professional''\<rparr> [(3084, Tick)] \<lparr>progress = 3, error = False, processingState = PROCESSING, intervalId = Some 1, intervals = [1], completion_due = Some 8000, awaiting = NotAwaiting, clock = 3000, dispatched = [SubscribeCloudSubscription (Some ''cloud-professional'')], onBackCalls = 0\<rparr> = Some \<lparr>progress = 6, error = False, processingState = PROCESSING, intervalId = Some 1, intervals = [1], completion_due = Some 8000, awaiting = NotAwaiting, clock = 3084, dispatched = [SubscribeCloudSubscription (Some ''cloud-professional'')], onBackCalls = 0\<rparr>"
    by code_simp
  have h5: "step \<lparr>teamToKeep = None, selectedProduct = Some ''cloud-professional''\<rparr> (8000, CompletionTimeout) \<lparr>progress = 6, error = False, processingState = PROCESSING, intervalId = Some 1, intervals = [1], completion_due = Some 8000, awaiting = NotAwaiting, clock = 3084, dispatched = [SubscribeCloudSubscription (Some ''cloud-professional'')], onBackCalls = 0\<rparr> = Some \<lparr>progress = 100, error = False, processingState = SUCCESS, intervalId = Some 1, intervals = [], completion_due = None, awaiting = NotAwaiting, clock = 8000, dispatched = [SubscribeCloudSubscription (Some ''cloud-professional'')], onBackCalls = 0\<rparr>"
    by code_simp
  have h6: "step \<lparr>teamToKeep = None, selectedProduct = Some ''cloud-professional''\<rparr> (9000, SubscribeResolved (JSBoolean False)) \<lparr>progress = 3, error = False, processingState = PROCESSING, intervalId = Some 1, intervals = [1], completion_due = None, awaiting = AwaitSubscribe 0, clock = 84, dispatched = [SubscribeCloudSubscription (Some ''cloud-professional'')], onBackCalls = 0\<rparr> = Some \<lparr>progress = 100, error = False, processingState = SUCCESS, intervalId = Some 1, intervals = [], completion_due = None, awaiting = NotAwaiting, clock = 9000, dispatched = [SubscribeCloudSubscription (Some ''cloud-professional'')], onBackCalls = 0\<rparr>"
    by code_simp
  have lt: "(3000::int) - 0 < 8000" and ge: "\<not> (9000::int) - 0 < 8000"
    by simp_all
  have le: "clock \<lparr>progress = 6, error = False, processingState = PROCESSING, intervalId = Some 1, intervals = [1], completion_due = Some 8000, awaiting = NotAwaiting, clock = 3084, dispatched = [SubscribeCloudSubscription (Some ''cloud-professional'')], onBackCalls = 0\<rparr> \<le> 8000" "(0::int) + 8000 \<le> 8000"
    by simp_all
  note w = false_result_completes [OF h1 h2]
  note w3 = w [THEN conjunct2, THEN conjunct2, unfolded if_P [OF lt]]
  have c1: "step \<lparr>teamToKeep = None, selectedProduct = Some ''cloud-professional''\<rparr> (3000, SubscribeResolved (JSBoolean True)) \<lparr>progress = 3, error = False, processingState = PROCESSING, intervalId = Some 1, intervals = [1], completion_due = None, awaiting = AwaitSubscribe 0, clock = 84, dispatched = [SubscribeCloudSubscription (Some ''cloud-professional'')], onBackCalls = 0\<rparr> = Some \<lparr>progress = 3, error = False, processingState = PROCESSING, intervalId = Some 1, intervals = [1], completion_due = Some 8000, awaiting = NotAwaiting, clock = 3000, dispatched = [SubscribeCloudSubscription (Some ''cloud-professional'')], onBackCalls = 0\<rparr> \<and>
      \<not> error \<lparr>progress = 3, error = False, processingState = PROCESSING, intervalId = Some 1, intervals = [1], completion_due = Some 8000, awaiting = NotAwaiting, clock = 3000, dispatched = [SubscribeCloudSubscription (Some ''cloud-professional'')], onBackCalls = 0\<rparr> \<and> processingState \<lparr>progress = 3, error = False, processingState = PROCESSING, intervalId = Some 1, intervals = [1], completion_due = Some 8000, awaiting = NotAwaiting, clock = 3000, dispatched = [SubscribeCloudSubscription (Some ''cloud-professional'')], onBackCalls = 0\<rparr> = PROCESSING"
    using w [THEN conjunct1] w [THEN conjunct2, THEN conjunct1] w3 [THEN conjunct1]
    by (intro conjI)
  have "\<exists>s3. step \<lparr>teamToKeep = None, selectedProduct = Some ''cloud-professional''\<rparr> (8000, CompletionTimeout) \<lparr>progress = 6, error = False, processingState = PROCESSING, intervalId = Some 1, intervals = [1], completion_due = Some 8000, awaiting = NotAwaiting, clock = 3084, dispatched = [SubscribeCloudSubscription (Some ''cloud-professional'')], onBackCalls = 0\<rparr> = Some s3 \<and>
      processingState s3 = SUCCESS \<and> \<not> error s3"
    using w3 [THEN conjunct2, rule_format,
        OF conjI [OF h3 conjI [OF h4 conjI [OF le(1) le(2)]]]] .
  then have c2: "processingState \<lparr>progress = 100, error = False, processingState = SUCCESS, intervalId = Some 1, intervals = [], completion_due = None, awaiting = NotAwaiting, clock = 8000, dispatched = [SubscribeCloudSubscription (Some ''cloud-professional'')], onBackCalls = 0\<rparr> = SUCCESS \<and> \<not> error \<lparr>progress = 100, error = False, processingState = SUCCESS, intervalId = Some 1, intervals = [], completion_due = None, awaiting = NotAwaiting, clock = 8000, dispatched = [SubscribeCloudSubscription (Some ''cloud-professional'')], onBackCalls = 0\<rparr>"
    unfolding h5 by blast
  have c3: "processingState \<lparr>progress = 100, error = False, processingState = SUCCESS, intervalId = Some 1, intervals = [], completion_due = None, awaiting = NotAwaiting, clock = 9000, dispatched = [SubscribeCloudSubscription (Some ''cloud-professional'')], onBackCalls = 0\<rparr> = SUCCESS"
    using false_result_completes [OF h1 h6, THEN conjunct2, THEN conjunct2,
        unfolded if_not_P [OF ge]] .
  from h1 h2 h3 h4 h5 h6 c1 c2 c3 show ?thesis
    by blast
qed

section \<open>Properties of the pricing post renderer\<close>

lemma replace_last_comma_append:
  "CHR '','' \<notin> set b \<Longrightarrow> replace_last_comma (a @ CHR '','' # b) = a @ b"
  by (induction a) auto

lemma join_snoc: "xs \<noteq> [] \<Longrightarrow> join sep (xs @ [l]) = join sep xs @ sep @ l"
  by (induction sep xs rule: join.induct) auto

lemma length_getUserIds [simp]:
  "length (getUserIdsForUsersThatRequestedFeature requests) = length requests"
  by (induction requests) auto

lemma length_userNames [simp]: "length (userNames up ids) = length ids"
  by (induction ids) auto

lemma length_getUserNames [simp]:
  "length (getUserNamesForUsersThatRequestedFeature up requests) = length requests"
  by (simp add: getUserNamesForUsersThatRequestedFeature_def)

lemma nth_getUserIds:
  "i < length requests \<Longrightarrow>
   getUserIdsForUsersThatRequestedFeature requests ! i = user_id (requests ! i)"
  by (induction requests arbitrary: i) (auto simp: nth_Cons split: nat.splits)

lemma nth_userNames:
  "i < length ids \<Longrightarrow>
   userNames up ids ! i =
     (case getProperty up (ids ! i) of
        Missing \<Rightarrow> ''@unknown''
      | Entry profile \<Rightarrow> ''@'' @ username profile
      | Inherited \<Rightarrow> ''@undefined'')"
  by (induction ids arbitrary: i) (auto simp: nth_Cons split: nat.splits property.splits)

lemma mapFeatureToPlan_flag:
  "snd (mapFeatureToPlan c f a) =
     (a \<and> fst (mapFeatureToPlan c f b) \<noteq> MinimumPlansForFeature_Enterprise)"
  by (simp add: mapFeatureToPlan_def MinimumPlansForFeature_Enterprise_def
      MinimumPlansForFeature_Professional_def)

lemma featureMessages_flag:
  "snd (featureMessages c up entries a) =
     (a \<and> (\<forall>f \<in> set (map fst entries).
              fst (mapFeatureToPlan c f b) \<noteq> MinimumPlansForFeature_Enterprise))"
proof (induction entries arbitrary: a)
  case Nil
  then show ?case by simp
next
  case (Cons e entries)
  obtain f rs where e: "e = (f, rs)" by (cases e)
  show ?case
    using Cons.IH [of "snd (mapFeatureToPlan c f a)"] mapFeatureToPlan_flag [of c f a b]
    by (auto simp: e split: prod.splits)
qed

lemma buttons_OpenPricingModalPost:
  "buttons (OpenPricingModalPost c up post) =
     renderButtons (trial (post_props post))
       (case requested_features (post_props post) of
          None \<Rightarrow> True
        | Some entries \<Rightarrow> snd (featureMessages c up entries True))"
  by (simp add: OpenPricingModalPost_def Let_def split: option.splits prod.splits)

text \<open>
  C4. When the post's trial flag is set, the buttons are the trial set (\<open>Learn more about
  trial\<close>, \<open>View upgrade options\<close>), whatever the features. Otherwise the buttons are the
  lone \<open>View upgrade options\<close> button if and only if the post has a requested feature that
  \<open>mapFeatureToPlan\<close> maps to the Enterprise plan, and if they are not, they are the
  professional set (\<open>Upgrade to Professional\<close>, \<open>View upgrade options\<close>).
\<close>

theorem button_set_selection:
  "(trial (post_props post) = Some True \<longrightarrow>
      map label (buttons (OpenPricingModalPost c up post))
        = [''Learn more about trial'', ''View upgrade options'']) \<and>
   (trial (post_props post) \<noteq> Some True \<longrightarrow>
      (map label (buttons (OpenPricingModalPost c up post)) = [''View upgrade options'']
         \<longleftrightarrow> (\<exists>entries. requested_features (post_props post) = Some entries \<and>
               (\<exists>f \<in> set (map fst entries).
                  fst (mapFeatureToPlan c f True) = MinimumPlansForFeature_Enterprise))) \<and>
      (map label (buttons (OpenPricingModalPost c up post)) \<noteq> [''View upgrade options'']
         \<longrightarrow> map label (buttons (OpenPricingModalPost c up post))
               = [''Upgrade to Professional'', ''View upgrade options'']))"
proof (cases "requested_features (post_props post)")
  case None
  then show ?thesis
    by (simp add: buttons_OpenPricingModalPost renderButtons_def)
next
  case (Some entries)
  then show ?thesis
    using featureMessages_flag [of c up entries True True]
    by (auto simp: buttons_OpenPricingModalPost renderButtons_def)
qed

theorem button_set_selection_witness:
  "trial (post_props \<lparr>post_id = ''post1'', message = ''Members requested an upgrade'', post_props = \<lparr>requested_features = Some [(''Custom User groups'', [\<lparr>request_id = ''r2'', user_id = ''u2'', required_feature = ''Guest Accounts'', required_plan = ''Professional plan'', create_at = ''1667000000000'', request_trial = ''false''\<rparr>])], trial = Some True\<rparr>\<rparr>) = Some True \<and>
   map label (buttons (OpenPricingModalPost \<lparr>GUEST_ACCOUNTS = ''Guest Accounts'', CREATE_MULTIPLE_TEAMS = ''Create Multiple Teams'', ALL_ENTERPRISE_FEATURES = ''All Enterprise features'', CUSTOM_USER_GROUPS = ''Custom User groups''\<rparr> (map_of [(''u1'', \<lparr>username = ''user1''\<rparr>), (''u2'', \<lparr>username = ''user2''\<rparr>)]) \<lparr>post_id = ''post1'', message = ''Members requested an upgrade'', post_props = \<lparr>requested_features = Some [(''Custom User groups'', [\<lparr>request_id = ''r2'', user_id = ''u2'', required_feature = ''Guest Accounts'', required_plan = ''Professional plan'', create_at = ''1667000000000'', request_trial = ''false''\<rparr>])], trial = Some True\<rparr>\<rparr>))
     = [''Learn more about trial'', ''View upgrade options''] \<and>
   trial (post_props \<lparr>post_id = ''post1'', message = ''Members requested an upgrade'', post_props = \<lparr>requested_features = Some [(''Guest Accounts'', [\<lparr>request_id = ''r1'', user_id = ''u1'', required_feature = ''Guest Accounts'', required_plan = ''Professional plan'', create_at = ''1667000000000'', request_trial = ''false''\<rparr>]), (''Custom User groups'', [\<lparr>request_id = ''r2'', user_id = ''u2'', required_feature = ''Guest Accounts'', required_plan = ''Professional plan'', create_at = ''1667000000000'', request_trial = ''false''\<rparr>])], trial = Some False\<rparr>\<rparr>) \<noteq> Some True \<and>
   fst (mapFeatureToPlan \<lparr>GUEST_ACCOUNTS = ''Guest Accounts'', CREATE_MULTIPLE_TEAMS = ''Create Multiple Teams'', ALL_ENTERPRISE_FEATURES = ''All Enterprise features'', CUSTOM_USER_GROUPS = ''Custom User groups''\<rparr> ''Custom User groups'' True) = MinimumPlansForFeature_Enterprise \<and>
   map label (buttons (OpenPricingModalPost \<lparr>GUEST_ACCOUNTS = ''Guest Accounts'', CREATE_MULTIPLE_TEAMS = ''Create Multiple Teams'', ALL_ENTERPRISE_FEATURES = ''All Enterprise features'', CUSTOM_USER_GROUPS = ''Custom User groups''\<rparr> (map_of [(''u1'', \<lparr>username = ''user1''\<rparr>), (''u2'', \<lparr>username = ''user2''\<rparr>)]) \<lparr>post_id = ''post1'', message = ''Members requested an upgrade'', post_props = \<lparr>requested_features = Some [(''Guest Accounts'', [\<lparr>request_id = ''r1'', user_id = ''u1'', required_feature = ''Guest Accounts'', required_plan = ''Professional plan'', create_at = ''1667000000000'', request_trial = ''false''\<rparr>]), (''Custom User groups'', [\<lparr>request_id = ''r2'', user_id = ''u2'', required_feature = ''Guest Accounts'', required_plan = ''Professional plan'', create_at = ''1667000000000'', request_trial = ''false''\<rparr>])], trial = Some False\<rparr>\<rparr>)) = [''View upgrade options''] \<and>
   trial (post_props \<lparr>post_id = ''post1'', message = ''Members requested an upgrade'', post_props = \<lparr>requested_features = Some [(''Guest Accounts'', [\<lparr>request_id = ''r1'', user_id = ''u1'', required_feature = ''Guest Accounts'', required_plan = ''Professional plan'', create_at = ''1667000000000'', request_trial = ''false''\<rparr>]), (''Playbooks'', [\<lparr>request_id = ''r2'', user_id = ''u2'', required_feature = ''Guest Accounts'', required_plan = ''Professional plan'', create_at = ''1667000000000'', request_trial = ''false''\<rparr>])], trial = None\<rparr>\<rparr>) \<noteq> Some True \<and>
   map label (buttons (OpenPricingModalPost \<lparr>GUEST_ACCOUNTS = ''Guest Accounts'', CREATE_MULTIPLE_TEAMS = ''Create Multiple Teams'', ALL_ENTERPRISE_FEATURES = ''All Enterprise features'', CUSTOM_USER_GROUPS = ''Custom User groups''\<rparr> (map_of [(''u1'', \<lparr>username = ''user1''\<rparr>), (''u2'', \<lparr>username = ''user2''\<rparr>)]) \<lparr>post_id = ''post1'', message = ''Members requested an upgrade'', post_props = \<lparr>requested_features = Some [(''Guest Accounts'', [\<lparr>request_id = ''r1'', user_id = ''u1'', required_feature = ''Guest Accounts'', required_plan = ''Professional plan'', create_at = ''1667000000000'', request_trial = ''false''\<rparr>]), (''Playbooks'', [\<lparr>request_id = ''r2'', user_id = ''u2'', required_feature = ''Guest Accounts'', required_plan = ''Professional plan'', create_at = ''1667000000000'', request_trial = ''false''\<rparr>])], trial = None\<rparr>\<rparr>)) \<noteq> [''View upgrade options''] \<and>
   map label (buttons (OpenPricingModalPost \<lparr>GUEST_ACCOUNTS = ''Guest Accounts'', CREATE_MULTIPLE_TEAMS = ''Create Multiple Teams'', ALL_ENTERPRISE_FEATURES = ''All Enterprise features'', CUSTOM_USER_GROUPS = ''Custom User groups''\<rparr> (map_of [(''u1'', \<lparr>username = ''user1''\<rparr>), (''u2'', \<lparr>username = ''user2''\<rparr>)]) \<lparr>post_id = ''post1'', message = ''Members requested an upgrade'', post_props = \<lparr>requested_features = Some [(''Guest Accounts'', [\<lparr>request_id = ''r1'', user_id = ''u1'', required_feature = ''Guest Accounts'', required_plan = ''Professional plan'', create_at = ''1667000000000'', request_trial = ''false''\<rparr>]), (''Playbooks'', [\<lparr>request_id = ''r2'', user_id = ''u2'', required_feature = ''Guest Accounts'', required_plan = ''Professional plan'', create_at = ''1667000000000'', request_trial = ''false''\<rparr>])], trial = None\<rparr>\<rparr>))
     = [''Upgrade to Professional'', ''View upgrade options'']"
proof -
  have t1: "trial (post_props \<lparr>post_id = ''post1'', message = ''Members requested an upgrade'', post_props = \<lparr>requested_features = Some [(''Custom User groups'', [\<lparr>request_id = ''r2'', user_id = ''u2'', required_feature = ''Guest Accounts'', required_plan = ''Professional plan'', create_at = ''1667000000000'', request_trial = ''false''\<rparr>])], trial = Some True\<rparr>\<rparr>) = Some True"
    by simp
  have t2: "trial (post_props \<lparr>post_id = ''post1'', message = ''Members requested an upgrade'', post_props = \<lparr>requested_features = Some [(''Guest Accounts'', [\<lparr>request_id = ''r1'', user_id = ''u1'', required_feature = ''Guest Accounts'', required_plan = ''Professional plan'', create_at = ''1667000000000'', request_trial = ''false''\<rparr>]), (''Custom User groups'', [\<lparr>request_id = ''r2'', user_id = ''u2'', required_feature = ''Guest Accounts'', required_plan = ''Professional plan'', create_at = ''1667000000000'', request_trial = ''false''\<rparr>])], trial = Some False\<rparr>\<rparr>) \<noteq> Some True"
    by simp
  have t3: "trial (post_props \<lparr>post_id = ''post1'', message = ''Members requested an upgrade'', post_props = \<lparr>requested_features = Some [(''Guest Accounts'', [\<lparr>request_id = ''r1'', user_id = ''u1'', required_feature = ''Guest Accounts'', required_plan = ''Professional plan'', create_at = ''1667000000000'', request_trial = ''false''\<rparr>]), (''Playbooks'', [\<lparr>request_id = ''r2'', user_id = ''u2'', required_feature = ''Guest Accounts'', required_plan = ''Professional plan'', create_at = ''1667000000000'', request_trial = ''false''\<rparr>])], trial = None\<rparr>\<rparr>) \<noteq> Some True"
    by simp
  have m: "fst (mapFeatureToPlan \<lparr>GUEST_ACCOUNTS = ''Guest Accounts'', CREATE_MULTIPLE_TEAMS = ''Create Multiple Teams'', ALL_ENTERPRISE_FEATURES = ''All Enterprise features'', CUSTOM_USER_GROUPS = ''Custom User groups''\<rparr> ''Custom User groups'' True) = MinimumPlansForFeature_Enterprise"
    by (simp add: mapFeatureToPlan_def)
  have ex: "\<exists>entries. requested_features (post_props \<lparr>post_id = ''post1'', message = ''Members requested an upgrade'', post_props = \<lparr>requested_features = Some [(''Guest Accounts'', [\<lparr>request_id = ''r1'', user_id = ''u1'', required_feature = ''Guest Accounts'', required_plan = ''Professional plan'', create_at = ''1667000000000'', request_trial = ''false''\<rparr>]), (''Custom User groups'', [\<lparr>request_id = ''r2'', user_id = ''u2'', required_feature = ''Guest Accounts'', required_plan = ''Professional plan'', create_at = ''1667000000000'', request_trial = ''false''\<rparr>])], trial = Some False\<rparr>\<rparr>) = Some entries \<and>
      (\<exists>f \<in> set (map fst entries).
         fst (mapFeatureToPlan \<lparr>GUEST_ACCOUNTS = ''Guest Accounts'', CREATE_MULTIPLE_TEAMS = ''Create Multiple Teams'', ALL_ENTERPRISE_FEATURES = ''All Enterprise features'', CUSTOM_USER_GROUPS = ''Custom User groups''\<rparr> f True) = MinimumPlansForFeature_Enterprise)"
    by (simp add: mapFeatureToPlan_def)
  have nex: "\<not> (\<exists>entries. requested_features (post_props \<lparr>post_id = ''post1'', message = ''Members requested an upgrade'', post_props = \<lparr>requested_features = Some [(''Guest Accounts'', [\<lparr>request_id = ''r1'', user_id = ''u1'', required_feature = ''Guest Accounts'', required_plan = ''Professional plan'', create_at = ''1667000000000'', request_trial = ''false''\<rparr>]), (''Playbooks'', [\<lparr>request_id = ''r2'', user_id = ''u2'', required_feature = ''Guest Accounts'', required_plan = ''Professional plan'', create_at = ''1667000000000'', request_trial = ''false''\<rparr>])], trial = None\<rparr>\<rparr>) = Some entries \<and>
      (\<exists>f \<in> set (map fst entries).
         fst (mapFeatureToPlan \<lparr>GUEST_ACCOUNTS = ''Guest Accounts'', CREATE_MULTIPLE_TEAMS = ''Create Multiple Teams'', ALL_ENTERPRISE_FEATURES = ''All Enterprise features'', CUSTOM_USER_GROUPS = ''Custom User groups''\<rparr> f True) = MinimumPlansForFeature_Enterprise))"
    by (simp add: mapFeatureToPlan_def MinimumPlansForFeature_Enterprise_def
        MinimumPlansForFeature_Professional_def)
  have c1: "map label (buttons (OpenPricingModalPost \<lparr>GUEST_ACCOUNTS = ''Guest Accounts'', CREATE_MULTIPLE_TEAMS = ''Create Multiple Teams'', ALL_ENTERPRISE_FEATURES = ''All Enterprise features'', CUSTOM_USER_GROUPS = ''Custom User groups''\<rparr> (map_of [(''u1'', \<lparr>username = ''user1''\<rparr>), (''u2'', \<lparr>username = ''user2''\<rparr>)]) \<lparr>post_id = ''post1'', message = ''Members requested an upgrade'', post_props = \<lparr>requested_features = Some [(''Custom User groups'', [\<lparr>request_id = ''r2'', user_id = ''u2'', required_feature = ''Guest Accounts'', required_plan = ''Professional plan'', create_at = ''1667000000000'', request_trial = ''false''\<rparr>])], trial = Some True\<rparr>\<rparr>))
      = [''Learn more about trial'', ''View upgrade options'']"
    using button_set_selection [where post = "\<lparr>post_id = ''post1'', message = ''Members requested an upgrade'', post_props = \<lparr>requested_features = Some [(''Custom User groups'', [\<lparr>request_id = ''r2'', user_id = ''u2'', required_feature = ''Guest Accounts'', required_plan = ''Professional plan'', create_at = ''1667000000000'', request_trial = ''false''\<rparr>])], trial = Some True\<rparr>\<rparr>" and c = "\<lparr>GUEST_ACCOUNTS = ''Guest Accounts'', CREATE_MULTIPLE_TEAMS = ''Create Multiple Teams'', ALL_ENTERPRISE_FEATURES = ''All Enterprise features'', CUSTOM_USER_GROUPS = ''Custom User groups''\<rparr>" and up = "(map_of [(''u1'', \<lparr>username = ''user1''\<rparr>), (''u2'', \<lparr>username = ''user2''\<rparr>)])",
        THEN conjunct1, rule_format, OF t1] .
  have c2: "map label (buttons (OpenPricingModalPost \<lparr>GUEST_ACCOUNTS = ''Guest Accounts'', CREATE_MULTIPLE_TEAMS = ''Create Multiple Teams'', ALL_ENTERPRISE_FEATURES = ''All Enterprise features'', CUSTOM_USER_GROUPS = ''Custom User groups''\<rparr> (map_of [(''u1'', \<lparr>username = ''user1''\<rparr>), (''u2'', \<lparr>username = ''user2''\<rparr>)]) \<lparr>post_id = ''post1'', message = ''Members requested an upgrade'', post_props = \<lparr>requested_features = Some [(''Guest Accounts'', [\<lparr>request_id = ''r1'', user_id = ''u1'', required_feature = ''Guest Accounts'', required_plan = ''Professional plan'', create_at = ''1667000000000'', request_trial = ''false''\<rparr>]), (''Custom User groups'', [\<lparr>request_id = ''r2'', user_id = ''u2'', required_feature = ''Guest Accounts'', required_plan = ''Professional plan'', create_at = ''1667000000000'', request_trial = ''false''\<rparr>])], trial = Some False\<rparr>\<rparr>))
      = [''View upgrade options'']"
    using button_set_selection [where post = "\<lparr>post_id = ''post1'', message = ''Members requested an upgrade'', post_props = \<lparr>requested_features = Some [(''Guest Accounts'', [\<lparr>request_id = ''r1'', user_id = ''u1'', required_feature = ''Guest Accounts'', required_plan = ''Professional plan'', create_at = ''1667000000000'', request_trial = ''false''\<rparr>]), (''Custom User groups'', [\<lparr>request_id = ''r2'', user_id = ''u2'', required_feature = ''Guest Accounts'', required_plan = ''Professional plan'', create_at = ''1667000000000'', request_trial = ''false''\<rparr>])], trial = Some False\<rparr>\<rparr>" and c = "\<lparr>GUEST_ACCOUNTS = ''Guest Accounts'', CREATE_MULTIPLE_TEAMS = ''Create Multiple Teams'', ALL_ENTERPRISE_FEATURES = ''All Enterprise features'', CUSTOM_USER_GROUPS = ''Custom User groups''\<rparr>" and up = "(map_of [(''u1'', \<lparr>username = ''user1''\<rparr>), (''u2'', \<lparr>username = ''user2''\<rparr>)])",
        THEN conjunct2, rule_format, OF t2, THEN conjunct1, THEN iffD2, OF ex] .
  note w3 = button_set_selection [where post = "\<lparr>post_id = ''post1'', message = ''Members requested an upgrade'', post_props = \<lparr>requested_features = Some [(''Guest Accounts'', [\<lparr>request_id = ''r1'', user_id = ''u1'', required_feature = ''Guest Accounts'', required_plan = ''Professional plan'', create_at = ''1667000000000'', request_trial = ''false''\<rparr>]), (''Playbooks'', [\<lparr>request_id = ''r2'', user_id = ''u2'', required_feature = ''Guest Accounts'', required_plan = ''Professional plan'', create_at = ''1667000000000'', request_trial = ''false''\<rparr>])], trial = None\<rparr>\<rparr>" and c = "\<lparr>GUEST_ACCOUNTS = ''Guest Accounts'', CREATE_MULTIPLE_TEAMS = ''Create Multiple Teams'', ALL_ENTERPRISE_FEATURES = ''All Enterprise features'', CUSTOM_USER_GROUPS = ''Custom User groups''\<rparr>" and up = "(map_of [(''u1'', \<lparr>username = ''user1''\<rparr>), (''u2'', \<lparr>username = ''user2''\<rparr>)])",
      THEN conjunct2, rule_format, OF t3]
  have c3: "map label (buttons (OpenPricingModalPost \<lparr>GUEST_ACCOUNTS = ''Guest Accounts'', CREATE_MULTIPLE_TEAMS = ''Create Multiple Teams'', ALL_ENTERPRISE_FEATURES = ''All Enterprise features'', CUSTOM_USER_GROUPS = ''Custom User groups''\<rparr> (map_of [(''u1'', \<lparr>username = ''user1''\<rparr>), (''u2'', \<lparr>username = ''user2''\<rparr>)]) \<lparr>post_id = ''post1'', message = ''Members requested an upgrade'', post_props = \<lparr>requested_features = Some [(''Guest Accounts'', [\<lparr>request_id = ''r1'', user_id = ''u1'', required_feature = ''Guest Accounts'', required_plan = ''Professional plan'', create_at = ''1667000000000'', request_trial = ''false''\<rparr>]), (''Playbooks'', [\<lparr>request_id = ''r2'', user_id = ''u2'', required_feature = ''Guest Accounts'', required_plan = ''Professional plan'', create_at = ''1667000000000'', request_trial = ''false''\<rparr>])], trial = None\<rparr>\<rparr>))
      \<noteq> [''View upgrade options'']"
    using w3 [THEN conjunct1] nex by (rule ssubst)
  have c4: "map label (buttons (OpenPricingModalPost \<lparr>GUEST_ACCOUNTS = ''Guest Accounts'', CREATE_MULTIPLE_TEAMS = ''Create Multiple Teams'', ALL_ENTERPRISE_FEATURES = ''All Enterprise features'', CUSTOM_USER_GROUPS = ''Custom User groups''\<rparr> (map_of [(''u1'', \<lparr>username = ''user1''\<rparr>), (''u2'', \<lparr>username = ''user2''\<rparr>)]) \<lparr>post_id = ''post1'', message = ''Members requested an upgrade'', post_props = \<lparr>requested_features = Some [(''Guest Accounts'', [\<lparr>request_id = ''r1'', user_id = ''u1'', required_feature = ''Guest Accounts'', required_plan = ''Professional plan'', create_at = ''1667000000000'', request_trial = ''false''\<rparr>]), (''Playbooks'', [\<lparr>request_id = ''r2'', user_id = ''u2'', required_feature = ''Guest Accounts'', required_plan = ''Professional plan'', create_at = ''1667000000000'', request_trial = ''false''\<rparr>])], trial = None\<rparr>\<rparr>))
      = [''Upgrade to Professional'', ''View upgrade options'']"
    using w3 [THEN conjunct2, rule_format, OF c3] .
  from t1 t2 t3 m c1 c2 c3 c4 show ?thesis
    by (intro conjI)
qed

text \<open>
  C5, as the code has it. For a non-empty list of requests: with 5 or more requests the
  text is the number of requests followed by \<open> members\<close>; with one request it is that
  requester's name; with 2 to 4 requests it is the names but the last joined by a comma
  and a space, then \<open> and \<close> and the last name (the last name having no comma in it).
\<close>

theorem requesters_display:
  assumes "requests \<noteq> []"
  shows "(5 \<le> length requests \<longrightarrow>
            renderUsersThatRequestedFeature up requests
              = string_of_nat (length requests) @ '' members'') \<and>
         (length requests = 1 \<longrightarrow>
            renderUsersThatRequestedFeature up requests
              = hd (getUserNamesForUsersThatRequestedFeature up requests)) \<and>
         (2 \<le> length requests \<and> length requests < 5 \<and>
          CHR '','' \<notin> set (last (getUserNamesForUsersThatRequestedFeature up requests)) \<longrightarrow>
            renderUsersThatRequestedFeature up requests
              = join '', '' (butlast (getUserNamesForUsersThatRequestedFeature up requests))
                  @ '' and '' @ last (getUserNamesForUsersThatRequestedFeature up requests))"
proof -
  let ?names = "getUserNamesForUsersThatRequestedFeature up requests"
  have "renderUsersThatRequestedFeature up requests
          = join '', '' (butlast ?names) @ '' and '' @ last ?names"
    if n: "2 \<le> length requests" "length requests < 5" and c: "CHR '','' \<notin> set (last ?names)"
  proof -
    have ne: "?names \<noteq> []" "butlast ?names \<noteq> []"
      using n by (auto simp: length_0_conv [symmetric] simp del: length_0_conv)
    have "join '', '' (butlast ?names @ [''and '' @ last ?names])
            = (join '', '' (butlast ?names)) @ CHR '','' # ('' and '' @ last ?names)"
      using join_snoc [OF ne(2)] by simp
    moreover have "CHR '','' \<notin> set ('' and '' @ last ?names)"
      using c by simp
    ultimately have "replace_last_comma (join '', '' (butlast ?names @ [''and '' @ last ?names]))
            = join '', '' (butlast ?names) @ '' and '' @ last ?names"
      using replace_last_comma_append by metis
    then show ?thesis
      using n ne by (simp add: renderUsersThatRequestedFeature_def Let_def)
  qed
  then show ?thesis
    by (auto simp: renderUsersThatRequestedFeature_def Let_def)
qed

theorem requesters_display_witness:
  "[\<lparr>request_id = ''r1'', user_id = ''u1'', required_feature = ''Guest Accounts'', required_plan = ''Professional plan'', create_at = ''1667000000000'', request_trial = ''false''\<rparr>, \<lparr>request_id = ''r2'', user_id = ''u2'', required_feature = ''Guest Accounts'', required_plan = ''Professional plan'', create_at = ''1667000000000'', request_trial = ''false''\<rparr>, \<lparr>request_id = ''r3'', user_id = ''u3'', required_feature = ''Guest Accounts'', required_plan = ''Professional plan'', create_at = ''1667000000000'', request_trial = ''false''\<rparr>, \<lparr>request_id = ''r4'', user_id = ''u4'', required_feature = ''Guest Accounts'', required_plan = ''Professional plan'', create_at = ''1667000000000'', request_trial = ''false''\<rparr>, \<lparr>request_id = ''r5'', user_id = ''u5'', required_feature = ''Guest Accounts'', required_plan = ''Professional plan'', create_at = ''1667000000000'', request_trial = ''false''\<rparr>, \<lparr>request_id = ''r6'', user_id = ''u6'', required_feature = ''Guest Accounts'', required_plan = ''Professional plan'', create_at = ''1667000000000'', request_trial = ''false''\<rparr>] \<noteq> [] \<and>
   5 \<le> length [\<lparr>request_id = ''r1'', user_id = ''u1'', required_feature = ''Guest Accounts'', required_plan = ''Professional plan'', create_at = ''1667000000000'', request_trial = ''false''\<rparr>, \<lparr>request_id = ''r2'', user_id = ''u2'', required_feature = ''Guest Accounts'', required_plan = ''Professional plan'', create_at = ''1667000000000'', request_trial = ''false''\<rparr>, \<lparr>request_id = ''r3'', user_id = ''u3'', required_feature = ''Guest Accounts'', required_plan = ''Professional plan'', create_at = ''1667000000000'', request_trial = ''false''\<rparr>, \<lparr>request_id = ''r4'', user_id = ''u4'', required_feature = ''Guest Accounts'', required_plan = ''Professional plan'', create_at = ''1667000000000'', request_trial = ''false''\<rparr>, \<lparr>request_id = ''r5'', user_id = ''u5'', required_feature = ''Guest Accounts'', required_plan = ''Professional plan'', create_at = ''1667000000000'', request_trial = ''false''\<rparr>, \<lparr>request_id = ''r6'', user_id = ''u6'', required_feature = ''Guest Accounts'', required_plan = ''Professional plan'', create_at = ''1667000000000'', request_trial = ''false''\<rparr>] \<and>
   renderUsersThatRequestedFeature (map_of [(''u1'', \<lparr>username = ''user1''\<rparr>), (''u2'', \<lparr>username = ''user2''\<rparr>)]) [\<lparr>request_id = ''r1'', user_id = ''u1'', required_feature = ''Guest Accounts'', required_plan = ''Professional plan'', create_at = ''1667000000000'', request_trial = ''false''\<rparr>, \<lparr>request_id = ''r2'', user_id = ''u2'', required_feature = ''Guest Accounts'', required_plan = ''Professional plan'', create_at = ''1667000000000'', request_trial = ''false''\<rparr>, \<lparr>request_id = ''r3'', user_id = ''u3'', required_feature = ''Guest Accounts'', required_plan = ''Professional plan'', create_at = ''1667000000000'', request_trial = ''false''\<rparr>, \<lparr>request_id = ''r4'', user_id = ''u4'', required_feature = ''Guest Accounts'', required_plan = ''Professional plan'', create_at = ''1667000000000'', request_trial = ''false''\<rparr>, \<lparr>request_id = ''r5'', user_id = ''u5'', required_feature = ''Guest Accounts'', required_plan = ''Professional plan'', create_at = ''1667000000000'', request_trial = ''false''\<rparr>, \<lparr>request_id = ''r6'', user_id = ''u6'', required_feature = ''Guest Accounts'', required_plan = ''Professional plan'', create_at = ''1667000000000'', request_trial = ''false''\<rparr>] = ''6 members'' \<and>
   [\<lparr>request_id = ''r1'', user_id = ''u1'', required_feature = ''Guest Accounts'', required_plan = ''Professional plan'', create_at = ''1667000000000'', request_trial = ''false''\<rparr>, \<lparr>request_id = ''r2'', user_id = ''u2'', required_feature = ''Guest Accounts'', required_plan = ''Professional plan'', create_at = ''1667000000000'', request_trial = ''false''\<rparr>] \<noteq> [] \<and>
   2 \<le> length [\<lparr>request_id = ''r1'', user_id = ''u1'', required_feature = ''Guest Accounts'', required_plan = ''Professional plan'', create_at = ''1667000000000'', request_trial = ''false''\<rparr>, \<lparr>request_id = ''r2'', user_id = ''u2'', required_feature = ''Guest Accounts'', required_plan = ''Professional plan'', create_at = ''1667000000000'', request_trial = ''false''\<rparr>] \<and> length [\<lparr>request_id = ''r1'', user_id = ''u1'', required_feature = ''Guest Accounts'', required_plan = ''Professional plan'', create_at = ''1667000000000'', request_trial = ''false''\<rparr>, \<lparr>request_id = ''r2'', user_id = ''u2'', required_feature = ''Guest Accounts'', required_plan = ''Professional plan'', create_at = ''1667000000000'', request_trial = ''false''\<rparr>] < 5 \<and>
   CHR '','' \<notin> set (last (getUserNamesForUsersThatRequestedFeature (map_of [(''u1'', \<lparr>username = ''user1''\<rparr>), (''u2'', \<lparr>username = ''user2''\<rparr>)]) [\<lparr>request_id = ''r1'', user_id = ''u1'', required_feature = ''Guest Accounts'', required_plan = ''Professional plan'', create_at = ''1667000000000'', request_trial = ''false''\<rparr>, \<lparr>request_id = ''r2'', user_id = ''u2'', required_feature = ''Guest Accounts'', required_plan = ''Professional plan'', create_at = ''1667000000000'', request_trial = ''false''\<rparr>])) \<and>
   renderUsersThatRequestedFeature (map_of [(''u1'', \<lparr>username = ''user1''\<rparr>), (''u2'', \<lparr>username = ''user2''\<rparr>)]) [\<lparr>request_id = ''r1'', user_id = ''u1'', required_feature = ''Guest Accounts'', required_plan = ''Professional plan'', create_at = ''1667000000000'', request_trial = ''false''\<rparr>, \<lparr>request_id = ''r2'', user_id = ''u2'', required_feature = ''Guest Accounts'', required_plan = ''Professional plan'', create_at = ''1667000000000'', request_trial = ''false''\<rparr>] = ''@user1 and @user2'' \<and>
   length [\<lparr>request_id = ''r1'', user_id = ''u1'', required_feature = ''Guest Accounts'', required_plan = ''Professional plan'', create_at = ''1667000000000'', request_trial = ''false''\<rparr>] = 1 \<and>
   renderUsersThatRequestedFeature (map_of [(''u1'', \<lparr>username = ''user1''\<rparr>), (''u2'', \<lparr>username = ''user2''\<rparr>)]) [\<lparr>request_id = ''r1'', user_id = ''u1'', required_feature = ''Guest Accounts'', required_plan = ''Professional plan'', create_at = ''1667000000000'', request_trial = ''false''\<rparr>] = ''@user1''"
proof -
  have n6: "[\<lparr>request_id = ''r1'', user_id = ''u1'', required_feature = ''Guest Accounts'', required_plan = ''Professional plan'', create_at = ''1667000000000'', request_trial = ''false''\<rparr>, \<lparr>request_id = ''r2'', user_id = ''u2'', required_feature = ''Guest Accounts'', required_plan = ''Professional plan'', create_at = ''1667000000000'', request_trial = ''false''\<rparr>, \<lparr>request_id = ''r3'', user_id = ''u3'', required_feature = ''Guest Accounts'', required_plan = ''Professional plan'', create_at = ''1667000000000'', request_trial = ''false''\<rparr>, \<lparr>request_id = ''r4'', user_id = ''u4'', required_feature = ''Guest Accounts'', required_plan = ''Professional plan'', create_at = ''1667000000000'', request_trial = ''false''\<rparr>, \<lparr>request_id = ''r5'', user_id = ''u5'', required_feature = ''Guest Accounts'', required_plan = ''Professional plan'', create_at = ''1667000000000'', request_trial = ''false''\<rparr>, \<lparr>request_id = ''r6'', user_id = ''u6'', required_feature = ''Guest Accounts'', required_plan = ''Professional plan'', create_at = ''1667000000000'', request_trial = ''false''\<rparr>] \<noteq> []"
    and l6: "5 \<le> length [\<lparr>request_id = ''r1'', user_id = ''u1'', required_feature = ''Guest Accounts'', required_plan = ''Professional plan'', create_at = ''1667000000000'', request_trial = ''false''\<rparr>, \<lparr>request_id = ''r2'', user_id = ''u2'', required_feature = ''Guest Accounts'', required_plan = ''Professional plan'', create_at = ''1667000000000'', request_trial = ''false''\<rparr>, \<lparr>request_id = ''r3'', user_id = ''u3'', required_feature = ''Guest Accounts'', required_plan = ''Professional plan'', create_at = ''1667000000000'', request_trial = ''false''\<rparr>, \<lparr>request_id = ''r4'', user_id = ''u4'', required_feature = ''Guest Accounts'', required_plan = ''Professional plan'', create_at = ''1667000000000'', request_trial = ''false''\<rparr>, \<lparr>request_id = ''r5'', user_id = ''u5'', required_feature = ''Guest Accounts'', required_plan = ''Professional plan'', create_at = ''1667000000000'', request_trial = ''false''\<rparr>, \<lparr>request_id = ''r6'', user_id = ''u6'', required_feature = ''Guest Accounts'', required_plan = ''Professional plan'', create_at = ''1667000000000'', request_trial = ''false''\<rparr>]"
    by simp_all
  have e6: "string_of_nat (length [\<lparr>request_id = ''r1'', user_id = ''u1'', required_feature = ''Guest Accounts'', required_plan = ''Professional plan'', create_at = ''1667000000000'', request_trial = ''false''\<rparr>, \<lparr>request_id = ''r2'', user_id = ''u2'', required_feature = ''Guest Accounts'', required_plan = ''Professional plan'', create_at = ''1667000000000'', request_trial = ''false''\<rparr>, \<lparr>request_id = ''r3'', user_id = ''u3'', required_feature = ''Guest Accounts'', required_plan = ''Professional plan'', create_at = ''1667000000000'', request_trial = ''false''\<rparr>, \<lparr>request_id = ''r4'', user_id = ''u4'', required_feature = ''Guest Accounts'', required_plan = ''Professional plan'', create_at = ''1667000000000'', request_trial = ''false''\<rparr>, \<lparr>request_id = ''r5'', user_id = ''u5'', required_feature = ''Guest Accounts'', required_plan = ''Professional plan'', create_at = ''1667000000000'', request_trial = ''false''\<rparr>, \<lparr>request_id = ''r6'', user_id = ''u6'', required_feature = ''Guest Accounts'', required_plan = ''Professional plan'', create_at = ''1667000000000'', request_trial = ''false''\<rparr>]) @ '' members''
      = ''6 members''"
    by code_simp
  have n2: "[\<lparr>request_id = ''r1'', user_id = ''u1'', required_feature = ''Guest Accounts'', required_plan = ''Professional plan'', create_at = ''1667000000000'', request_trial = ''false''\<rparr>, \<lparr>request_id = ''r2'', user_id = ''u2'', required_feature = ''Guest Accounts'', required_plan = ''Professional plan'', create_at = ''1667000000000'', request_trial = ''false''\<rparr>] \<noteq> []"
    and l2: "2 \<le> length [\<lparr>request_id = ''r1'', user_id = ''u1'', required_feature = ''Guest Accounts'', required_plan = ''Professional plan'', create_at = ''1667000000000'', request_trial = ''false''\<rparr>, \<lparr>request_id = ''r2'', user_id = ''u2'', required_feature = ''Guest Accounts'', required_plan = ''Professional plan'', create_at = ''1667000000000'', request_trial = ''false''\<rparr>]" "length [\<lparr>request_id = ''r1'', user_id = ''u1'', required_feature = ''Guest Accounts'', required_plan = ''Professional plan'', create_at = ''1667000000000'', request_trial = ''false''\<rparr>, \<lparr>request_id = ''r2'', user_id = ''u2'', required_feature = ''Guest Accounts'', required_plan = ''Professional plan'', create_at = ''1667000000000'', request_trial = ''false''\<rparr>] < 5"
    by simp_all
  have k2: "CHR '','' \<notin> set (last (getUserNamesForUsersThatRequestedFeature (map_of [(''u1'', \<lparr>username = ''user1''\<rparr>), (''u2'', \<lparr>username = ''user2''\<rparr>)]) [\<lparr>request_id = ''r1'', user_id = ''u1'', required_feature = ''Guest Accounts'', required_plan = ''Professional plan'', create_at = ''1667000000000'', request_trial = ''false''\<rparr>, \<lparr>request_id = ''r2'', user_id = ''u2'', required_feature = ''Guest Accounts'', required_plan = ''Professional plan'', create_at = ''1667000000000'', request_trial = ''false''\<rparr>]))"
    by code_simp
  have e2: "join '', '' (butlast (getUserNamesForUsersThatRequestedFeature (map_of [(''u1'', \<lparr>username = ''user1''\<rparr>), (''u2'', \<lparr>username = ''user2''\<rparr>)]) [\<lparr>request_id = ''r1'', user_id = ''u1'', required_feature = ''Guest Accounts'', required_plan = ''Professional plan'', create_at = ''1667000000000'', request_trial = ''false''\<rparr>, \<lparr>request_id = ''r2'', user_id = ''u2'', required_feature = ''Guest Accounts'', required_plan = ''Professional plan'', create_at = ''1667000000000'', request_trial = ''false''\<rparr>]))
      @ '' and '' @ last (getUserNamesForUsersThatRequestedFeature (map_of [(''u1'', \<lparr>username = ''user1''\<rparr>), (''u2'', \<lparr>username = ''user2''\<rparr>)]) [\<lparr>request_id = ''r1'', user_id = ''u1'', required_feature = ''Guest Accounts'', required_plan = ''Professional plan'', create_at = ''1667000000000'', request_trial = ''false''\<rparr>, \<lparr>request_id = ''r2'', user_id = ''u2'', required_feature = ''Guest Accounts'', required_plan = ''Professional plan'', create_at = ''1667000000000'', request_trial = ''false''\<rparr>])
      = ''@user1 and @user2''"
    by code_simp
  have n1: "[\<lparr>request_id = ''r1'', user_id = ''u1'', required_feature = ''Guest Accounts'', required_plan = ''Professional plan'', create_at = ''1667000000000'', request_trial = ''false''\<rparr>] \<noteq> []" and l1: "length [\<lparr>request_id = ''r1'', user_id = ''u1'', required_feature = ''Guest Accounts'', required_plan = ''Professional plan'', create_at = ''1667000000000'', request_trial = ''false''\<rparr>] = 1"
    by simp_all
  have e1: "hd (getUserNamesForUsersThatRequestedFeature (map_of [(''u1'', \<lparr>username = ''user1''\<rparr>), (''u2'', \<lparr>username = ''user2''\<rparr>)]) [\<lparr>request_id = ''r1'', user_id = ''u1'', required_feature = ''Guest Accounts'', required_plan = ''Professional plan'', create_at = ''1667000000000'', request_trial = ''false''\<rparr>]) = ''@user1''"
    by code_simp
  have c6: "renderUsersThatRequestedFeature (map_of [(''u1'', \<lparr>username = ''user1''\<rparr>), (''u2'', \<lparr>username = ''user2''\<rparr>)]) [\<lparr>request_id = ''r1'', user_id = ''u1'', required_feature = ''Guest Accounts'', required_plan = ''Professional plan'', create_at = ''1667000000000'', request_trial = ''false''\<rparr>, \<lparr>request_id = ''r2'', user_id = ''u2'', required_feature = ''Guest Accounts'', required_plan = ''Professional plan'', create_at = ''1667000000000'', request_trial = ''false''\<rparr>, \<lparr>request_id = ''r3'', user_id = ''u3'', required_feature = ''Guest Accounts'', required_plan = ''Professional plan'', create_at = ''1667000000000'', request_trial = ''false''\<rparr>, \<lparr>request_id = ''r4'', user_id = ''u4'', required_feature = ''Guest Accounts'', required_plan = ''Professional plan'', create_at = ''1667000000000'', request_trial = ''false''\<rparr>, \<lparr>request_id = ''r5'', user_id = ''u5'', required_feature = ''Guest Accounts'', required_plan = ''Professional plan'', create_at = ''1667000000000'', request_trial = ''false''\<rparr>, \<lparr>request_id = ''r6'', user_id = ''u6'', required_feature = ''Guest Accounts'', required_plan = ''Professional plan'', create_at = ''1667000000000'', request_trial = ''false''\<rparr>]
      = ''6 members''"
    using requesters_display [OF n6, THEN conjunct1, rule_format, OF l6, THEN trans, OF e6] .
  have c2: "renderUsersThatRequestedFeature (map_of [(''u1'', \<lparr>username = ''user1''\<rparr>), (''u2'', \<lparr>username = ''user2''\<rparr>)]) [\<lparr>request_id = ''r1'', user_id = ''u1'', required_feature = ''Guest Accounts'', required_plan = ''Professional plan'', create_at = ''1667000000000'', request_trial = ''false''\<rparr>, \<lparr>request_id = ''r2'', user_id = ''u2'', required_feature = ''Guest Accounts'', required_plan = ''Professional plan'', create_at = ''1667000000000'', request_trial = ''false''\<rparr>] = ''@user1 and @user2''"
    using requesters_display [OF n2, THEN conjunct2, THEN conjunct2, rule_format,
        OF conjI [OF l2(1) conjI [OF l2(2) k2]], THEN trans, OF e2] .
  have c1: "renderUsersThatRequestedFeature (map_of [(''u1'', \<lparr>username = ''user1''\<rparr>), (''u2'', \<lparr>username = ''user2''\<rparr>)]) [\<lparr>request_id = ''r1'', user_id = ''u1'', required_feature = ''Guest Accounts'', required_plan = ''Professional plan'', create_at = ''1667000000000'', request_trial = ''false''\<rparr>] = ''@user1''"
    using requesters_display [OF n1, THEN conjunct2, THEN conjunct1, rule_format, OF l1,
        THEN trans, OF e1] .
  from n6 l6 c6 n2 l2 k2 c2 l1 c1 show ?thesis
    by (intro conjI)
qed

text \<open>
  The claim as the specification words it collapses the names to a count only above 5
  requesters. With exactly 5 requesters the text is already the count, and not the list
  of names.
\<close>

theorem requesters_display_five_counterexample:
  "\<not> 5 < length [\<lparr>request_id = ''r1'', user_id = ''u1'', required_feature = ''Guest Accounts'', required_plan = ''Professional plan'', create_at = ''1667000000000'', request_trial = ''false''\<rparr>, \<lparr>request_id = ''r2'', user_id = ''u2'', required_feature = ''Guest Accounts'', required_plan = ''Professional plan'', create_at = ''1667000000000'', request_trial = ''false''\<rparr>, \<lparr>request_id = ''r3'', user_id = ''u3'', required_feature = ''Guest Accounts'', required_plan = ''Professional plan'', create_at = ''1667000000000'', request_trial = ''false''\<rparr>, \<lparr>request_id = ''r4'', user_id = ''u4'', required_feature = ''Guest Accounts'', required_plan = ''Professional plan'', create_at = ''1667000000000'', request_trial = ''false''\<rparr>, \<lparr>request_id = ''r5'', user_id = ''u5'', required_feature = ''Guest Accounts'', required_plan = ''Professional plan'', create_at = ''1667000000000'', request_trial = ''false''\<rparr>] \<and>
   renderUsersThatRequestedFeature (map_of [(''u1'', \<lparr>username = ''user1''\<rparr>), (''u2'', \<lparr>username = ''user2''\<rparr>)]) [\<lparr>request_id = ''r1'', user_id = ''u1'', required_feature = ''Guest Accounts'', required_plan = ''Professional plan'', create_at = ''1667000000000'', request_trial = ''false''\<rparr>, \<lparr>request_id = ''r2'', user_id = ''u2'', required_feature = ''Guest Accounts'', required_plan = ''Professional plan'', create_at = ''1667000000000'', request_trial = ''false''\<rparr>, \<lparr>request_id = ''r3'', user_id = ''u3'', required_feature = ''Guest Accounts'', required_plan = ''Professional plan'', create_at = ''1667000000000'', request_trial = ''false''\<rparr>, \<lparr>request_id = ''r4'', user_id = ''u4'', required_feature = ''Guest Accounts'', required_plan = ''Professional plan'', create_at = ''1667000000000'', request_trial = ''false''\<rparr>, \<lparr>request_id = ''r5'', user_id = ''u5'', required_feature = ''Guest Accounts'', required_plan = ''Professional plan'', create_at = ''1667000000000'', request_trial = ''false''\<rparr>] = ''5 members'' \<and>
   renderUsersThatRequestedFeature (map_of [(''u1'', \<lparr>username = ''user1''\<rparr>), (''u2'', \<lparr>username = ''user2''\<rparr>)]) [\<lparr>request_id = ''r1'', user_id = ''u1'', required_feature = ''Guest Accounts'', required_plan = ''Professional plan'', create_at = ''1667000000000'', request_trial = ''false''\<rparr>, \<lparr>request_id = ''r2'', user_id = ''u2'', required_feature = ''Guest Accounts'', required_plan = ''Professional plan'', create_at = ''1667000000000'', request_trial = ''false''\<rparr>, \<lparr>request_id = ''r3'', user_id = ''u3'', required_feature = ''Guest Accounts'', required_plan = ''Professional plan'', create_at = ''1667000000000'', request_trial = ''false''\<rparr>, \<lparr>request_id = ''r4'', user_id = ''u4'', required_feature = ''Guest Accounts'', required_plan = ''Professional plan'', create_at = ''1667000000000'', request_trial = ''false''\<rparr>, \<lparr>request_id = ''r5'', user_id = ''u5'', required_feature = ''Guest Accounts'', required_plan = ''Professional plan'', create_at = ''1667000000000'', request_trial = ''false''\<rparr>]
     \<noteq> join '', '' (butlast (getUserNamesForUsersThatRequestedFeature (map_of [(''u1'', \<lparr>username = ''user1''\<rparr>), (''u2'', \<lparr>username = ''user2''\<rparr>)])
            [\<lparr>request_id = ''r1'', user_id = ''u1'', required_feature = ''Guest Accounts'', required_plan = ''Professional plan'', create_at = ''1667000000000'', request_trial = ''false''\<rparr>, \<lparr>request_id = ''r2'', user_id = ''u2'', required_feature = ''Guest Accounts'', required_plan = ''Professional plan'', create_at = ''1667000000000'', request_trial = ''false''\<rparr>, \<lparr>request_id = ''r3'', user_id = ''u3'', required_feature = ''Guest Accounts'', required_plan = ''Professional plan'', create_at = ''1667000000000'', request_trial = ''false''\<rparr>, \<lparr>request_id = ''r4'', user_id = ''u4'', required_feature = ''Guest Accounts'', required_plan = ''Professional plan'', create_at = ''1667000000000'', request_trial = ''false''\<rparr>, \<lparr>request_id = ''r5'', user_id = ''u5'', required_feature = ''Guest Accounts'', required_plan = ''Professional plan'', create_at = ''1667000000000'', request_trial = ''false''\<rparr>]))
         @ '' and '' @ last (getUserNamesForUsersThatRequestedFeature (map_of [(''u1'', \<lparr>username = ''user1''\<rparr>), (''u2'', \<lparr>username = ''user2''\<rparr>)])
            [\<lparr>request_id = ''r1'', user_id = ''u1'', required_feature = ''Guest Accounts'', required_plan = ''Professional plan'', create_at = ''1667000000000'', request_trial = ''false''\<rparr>, \<lparr>request_id = ''r2'', user_id = ''u2'', required_feature = ''Guest Accounts'', required_plan = ''Professional plan'', create_at = ''1667000000000'', request_trial = ''false''\<rparr>, \<lparr>request_id = ''r3'', user_id = ''u3'', required_feature = ''Guest Accounts'', required_plan = ''Professional plan'', create_at = ''1667000000000'', request_trial = ''false''\<rparr>, \<lparr>request_id = ''r4'', user_id = ''u4'', required_feature = ''Guest Accounts'', required_plan = ''Professional plan'', create_at = ''1667000000000'', request_trial = ''false''\<rparr>, \<lparr>request_id = ''r5'', user_id = ''u5'', required_feature = ''Guest Accounts'', required_plan = ''Professional plan'', create_at = ''1667000000000'', request_trial = ''false''\<rparr>])"
  by code_simp

text \<open>
  Where the names are as intended: one name for each request, in order; \<open>@\<close> followed by
  the username for a user id with a profile; and \<open>@unknown\<close> for a user id without a
  profile that is not the name of an inherited member.
\<close>

lemma requester_names_outside_prototype:
  "length (getUserNamesForUsersThatRequestedFeature up requests) = length requests \<and>
   (\<forall>i < length requests.
      (up (user_id (requests ! i)) = None \<and> user_id (requests ! i) \<notin> set Object_prototype \<longrightarrow>
         getUserNamesForUsersThatRequestedFeature up requests ! i = ''@unknown'') \<and>
      (\<forall>profile. up (user_id (requests ! i)) = Some profile \<longrightarrow>
         getUserNamesForUsersThatRequestedFeature up requests ! i = ''@'' @ username profile))"
  by (simp add: getUserNamesForUsersThatRequestedFeature_def nth_userNames nth_getUserIds
      getProperty_def)

text \<open>
  C7. The placeholder is missed for a user id that has no entry in the directory and
  names an inherited member: for the request of user id \<open>constructor\<close>, with a directory
  that has no such entry, the lookup finds the inherited member, the test
  \<open>profile === undefined\<close> fails, and the name is \<open>@undefined\<close>, not \<open>@unknown\<close>.
\<close>

theorem requester_names_inherited_member:
  "(map_of [(''u1'', \<lparr>username = ''user1''\<rparr>), (''u2'', \<lparr>username = ''user2''\<rparr>)]) ''constructor'' = None \<and>
   getProperty (map_of [(''u1'', \<lparr>username = ''user1''\<rparr>), (''u2'', \<lparr>username = ''user2''\<rparr>)]) ''constructor'' = Inherited \<and>
   getUserNamesForUsersThatRequestedFeature (map_of [(''u1'', \<lparr>username = ''user1''\<rparr>), (''u2'', \<lparr>username = ''user2''\<rparr>)]) [\<lparr>request_id = ''r1'', user_id = ''constructor'', required_feature = ''Guest Accounts'', required_plan = ''Professional plan'', create_at = ''1667000000000'', request_trial = ''false''\<rparr>] = [''@undefined'']"
  by (simp add: getUserNamesForUsersThatRequestedFeature_def getProperty_def
      Object_prototype_def)

text \<open>
  C9. For a feature name that is none of the four names of the lookup table,
  \<open>mapFeatureToPlan\<close> returns the Professional plan and leaves \<open>allProfessional\<close> as it
  was. So a post whose only requested feature is this one does not get the lone
  \<open>View upgrade options\<close> button, and in any post the buttons are those of the post
  without this feature.
\<close>

theorem unknown_feature_professional:
  assumes "feature \<noteq> GUEST_ACCOUNTS c" and "feature \<noteq> CREATE_MULTIPLE_TEAMS c"
    and "feature \<noteq> ALL_ENTERPRISE_FEATURES c" and "feature \<noteq> CUSTOM_USER_GROUPS c"
  shows "mapFeatureToPlan c feature allProfessional
           = (MinimumPlansForFeature_Professional, allProfessional) \<and>
         (\<forall>up post requests.
            requested_features (post_props post) = Some [(feature, requests)] \<longrightarrow>
            map label (buttons (OpenPricingModalPost c up post)) \<noteq> [''View upgrade options'']) \<and>
         (\<forall>up post before requests after.
            requested_features (post_props post) = Some (before @ (feature, requests) # after) \<longrightarrow>
            buttons (OpenPricingModalPost c up post)
              = buttons (OpenPricingModalPost c up
                  (post\<lparr>post_props := (post_props post)\<lparr>requested_features := Some (before @ after)\<rparr>\<rparr>)))"
proof -
  have m: "mapFeatureToPlan c feature a = (MinimumPlansForFeature_Professional, a)" for a
    using assms by (simp add: mapFeatureToPlan_def)
  have ne: "fst (mapFeatureToPlan c feature True) \<noteq> MinimumPlansForFeature_Enterprise"
    by (simp add: m MinimumPlansForFeature_Enterprise_def MinimumPlansForFeature_Professional_def)
  have one: "map label (buttons (OpenPricingModalPost c up post)) \<noteq> [''View upgrade options'']"
    if "requested_features (post_props post) = Some [(feature, requests)]" for up post requests
    using that by (simp add: buttons_OpenPricingModalPost renderButtons_def m)
  have drop: "buttons (OpenPricingModalPost c up post)
              = buttons (OpenPricingModalPost c up
                  (post\<lparr>post_props := (post_props post)\<lparr>requested_features := Some (before @ after)\<rparr>\<rparr>))"
    if "requested_features (post_props post) = Some (before @ (feature, requests) # after)"
    for up post before requests after
    using that ne
      featureMessages_flag [of c up "before @ (feature, requests) # after" True True]
      featureMessages_flag [of c up "before @ after" True True]
    by (simp add: buttons_OpenPricingModalPost)
  show ?thesis
    by (intro conjI allI impI) (rule m, erule one, erule drop)
qed

theorem unknown_feature_professional_witness:
  "''Playbooks'' \<noteq> GUEST_ACCOUNTS \<lparr>GUEST_ACCOUNTS = ''Guest Accounts'', CREATE_MULTIPLE_TEAMS = ''Create Multiple Teams'', ALL_ENTERPRISE_FEATURES = ''All Enterprise features'', CUSTOM_USER_GROUPS = ''Custom User groups''\<rparr> \<and> ''Playbooks'' \<noteq> CREATE_MULTIPLE_TEAMS \<lparr>GUEST_ACCOUNTS = ''Guest Accounts'', CREATE_MULTIPLE_TEAMS = ''Create Multiple Teams'', ALL_ENTERPRISE_FEATURES = ''All Enterprise features'', CUSTOM_USER_GROUPS = ''Custom User groups''\<rparr> \<and>
   ''Playbooks'' \<noteq> ALL_ENTERPRISE_FEATURES \<lparr>GUEST_ACCOUNTS = ''Guest Accounts'', CREATE_MULTIPLE_TEAMS = ''Create Multiple Teams'', ALL_ENTERPRISE_FEATURES = ''All Enterprise features'', CUSTOM_USER_GROUPS = ''Custom User groups''\<rparr> \<and> ''Playbooks'' \<noteq> CUSTOM_USER_GROUPS \<lparr>GUEST_ACCOUNTS = ''Guest Accounts'', CREATE_MULTIPLE_TEAMS = ''Create Multiple Teams'', ALL_ENTERPRISE_FEATURES = ''All Enterprise features'', CUSTOM_USER_GROUPS = ''Custom User groups''\<rparr> \<and>
   mapFeatureToPlan \<lparr>GUEST_ACCOUNTS = ''Guest Accounts'', CREATE_MULTIPLE_TEAMS = ''Create Multiple Teams'', ALL_ENTERPRISE_FEATURES = ''All Enterprise features'', CUSTOM_USER_GROUPS = ''Custom User groups''\<rparr> ''Playbooks'' True = (MinimumPlansForFeature_Professional, True) \<and>
   mapFeatureToPlan \<lparr>GUEST_ACCOUNTS = ''Guest Accounts'', CREATE_MULTIPLE_TEAMS = ''Create Multiple Teams'', ALL_ENTERPRISE_FEATURES = ''All Enterprise features'', CUSTOM_USER_GROUPS = ''Custom User groups''\<rparr> ''Playbooks'' False = (MinimumPlansForFeature_Professional, False) \<and>
   requested_features (post_props \<lparr>post_id = ''post1'', message = ''Members requested an upgrade'', post_props = \<lparr>requested_features = Some [(''Playbooks'', [\<lparr>request_id = ''r1'', user_id = ''u1'', required_feature = ''Guest Accounts'', required_plan = ''Professional plan'', create_at = ''1667000000000'', request_trial = ''false''\<rparr>])], trial = None\<rparr>\<rparr>) = Some [(''Playbooks'', [\<lparr>request_id = ''r1'', user_id = ''u1'', required_feature = ''Guest Accounts'', required_plan = ''Professional plan'', create_at = ''1667000000000'', request_trial = ''false''\<rparr>])] \<and>
   map label (buttons (OpenPricingModalPost \<lparr>GUEST_ACCOUNTS = ''Guest Accounts'', CREATE_MULTIPLE_TEAMS = ''Create Multiple Teams'', ALL_ENTERPRISE_FEATURES = ''All Enterprise features'', CUSTOM_USER_GROUPS = ''Custom User groups''\<rparr> (map_of [(''u1'', \<lparr>username = ''user1''\<rparr>), (''u2'', \<lparr>username = ''user2''\<rparr>)]) \<lparr>post_id = ''post1'', message = ''Members requested an upgrade'', post_props = \<lparr>requested_features = Some [(''Playbooks'', [\<lparr>request_id = ''r1'', user_id = ''u1'', required_feature = ''Guest Accounts'', required_plan = ''Professional plan'', create_at = ''1667000000000'', request_trial = ''false''\<rparr>])], trial = None\<rparr>\<rparr>)) \<noteq> [''View upgrade options'']"
proof -
  have h: "''Playbooks'' \<noteq> GUEST_ACCOUNTS \<lparr>GUEST_ACCOUNTS = ''Guest Accounts'', CREATE_MULTIPLE_TEAMS = ''Create Multiple Teams'', ALL_ENTERPRISE_FEATURES = ''All Enterprise features'', CUSTOM_USER_GROUPS = ''Custom User groups''\<rparr>" "''Playbooks'' \<noteq> CREATE_MULTIPLE_TEAMS \<lparr>GUEST_ACCOUNTS = ''Guest Accounts'', CREATE_MULTIPLE_TEAMS = ''Create Multiple Teams'', ALL_ENTERPRISE_FEATURES = ''All Enterprise features'', CUSTOM_USER_GROUPS = ''Custom User groups''\<rparr>"
    "''Playbooks'' \<noteq> ALL_ENTERPRISE_FEATURES \<lparr>GUEST_ACCOUNTS = ''Guest Accounts'', CREATE_MULTIPLE_TEAMS = ''Create Multiple Teams'', ALL_ENTERPRISE_FEATURES = ''All Enterprise features'', CUSTOM_USER_GROUPS = ''Custom User groups''\<rparr>" "''Playbooks'' \<noteq> CUSTOM_USER_GROUPS \<lparr>GUEST_ACCOUNTS = ''Guest Accounts'', CREATE_MULTIPLE_TEAMS = ''Create Multiple Teams'', ALL_ENTERPRISE_FEATURES = ''All Enterprise features'', CUSTOM_USER_GROUPS = ''Custom User groups''\<rparr>"
    by simp_all
  have r: "requested_features (post_props \<lparr>post_id = ''post1'', message = ''Members requested an upgrade'', post_props = \<lparr>requested_features = Some [(''Playbooks'', [\<lparr>request_id = ''r1'', user_id = ''u1'', required_feature = ''Guest Accounts'', required_plan = ''Professional plan'', create_at = ''1667000000000'', request_trial = ''false''\<rparr>])], trial = None\<rparr>\<rparr>) = Some [(''Playbooks'', [\<lparr>request_id = ''r1'', user_id = ''u1'', required_feature = ''Guest Accounts'', required_plan = ''Professional plan'', create_at = ''1667000000000'', request_trial = ''false''\<rparr>])]"
    by simp
  note w = unknown_feature_professional [OF h]
  have c1: "mapFeatureToPlan \<lparr>GUEST_ACCOUNTS = ''Guest Accounts'', CREATE_MULTIPLE_TEAMS = ''Create Multiple Teams'', ALL_ENTERPRISE_FEATURES = ''All Enterprise features'', CUSTOM_USER_GROUPS = ''Custom User groups''\<rparr> ''Playbooks'' True = (MinimumPlansForFeature_Professional, True)"
    using w [of True, THEN conjunct1] .
  have c2: "mapFeatureToPlan \<lparr>GUEST_ACCOUNTS = ''Guest Accounts'', CREATE_MULTIPLE_TEAMS = ''Create Multiple Teams'', ALL_ENTERPRISE_FEATURES = ''All Enterprise features'', CUSTOM_USER_GROUPS = ''Custom User groups''\<rparr> ''Playbooks'' False = (MinimumPlansForFeature_Professional, False)"
    using w [of False, THEN conjunct1] .
  have c3: "map label (buttons (OpenPricingModalPost \<lparr>GUEST_ACCOUNTS = ''Guest Accounts'', CREATE_MULTIPLE_TEAMS = ''Create Multiple Teams'', ALL_ENTERPRISE_FEATURES = ''All Enterprise features'', CUSTOM_USER_GROUPS = ''Custom User groups''\<rparr> (map_of [(''u1'', \<lparr>username = ''user1''\<rparr>), (''u2'', \<lparr>username = ''user2''\<rparr>)]) \<lparr>post_id = ''post1'', message = ''Members requested an upgrade'', post_props = \<lparr>requested_features = Some [(''Playbooks'', [\<lparr>request_id = ''r1'', user_id = ''u1'', required_feature = ''Guest Accounts'', required_plan = ''Professional plan'', create_at = ''1667000000000'', request_trial = ''false''\<rparr>])], trial = None\<rparr>\<rparr>))
      \<noteq> [''View upgrade options'']"
    using w [of True, THEN conjunct2, THEN conjunct1, rule_format, OF r] .
  from h r c1 c2 c3 show ?thesis
    by (intro conjI)
qed

section \<open>Properties of the skeleton loaders\<close>

text \<open>
  C10. For every number type and every way \<open>toString\<close> of writing numbers, the
  declarations of a rectangle skeleton loader are: \<open>height\<close> and \<open>width\<close>, the texts of
  the props \<open>height\<close> and \<open>width\<close> followed by \<open>px\<close>; \<open>border-radius\<close>, the text of 8
  followed by \<open>px\<close> when \<open>borderRadius\<close> is omitted, which is \<open>8px\<close> as 8 is written
  \<open>8\<close>, and the text of the given \<open>borderRadius\<close> followed by \<open>px\<close> when one is supplied,
  whatever its value.
\<close>

theorem rectangle_loader_style:
  "map_of (RectangleSkeletonLoader toString p) ''height'' = Some (toString (height p) @ ''px'') \<and>
   map_of (RectangleSkeletonLoader toString p) ''width'' = Some (toString (width p) @ ''px'') \<and>
   (borderRadius p = None \<longrightarrow>
      map_of (RectangleSkeletonLoader toString p) ''border-radius'' = Some (toString 8 @ ''px'')) \<and>
   (borderRadius p = None \<and> toString 8 = ''8'' \<longrightarrow>
      map_of (RectangleSkeletonLoader toString p) ''border-radius'' = Some ''8px'') \<and>
   (\<forall>r. borderRadius p = Some r \<longrightarrow>
      map_of (RectangleSkeletonLoader toString p) ''border-radius'' = Some (toString r @ ''px''))"
  by (simp add: RectangleSkeletonLoader_def)

theorem rectangle_loader_style_witness:
  "borderRadius \<lparr>height = 16::nat, width = 120, borderRadius = None\<rparr> = None \<and>
   string_of_nat 8 = ''8'' \<and>
   map_of (RectangleSkeletonLoader string_of_nat \<lparr>height = 16, width = 120, borderRadius = None\<rparr>)
     ''border-radius'' = Some ''8px'' \<and>
   borderRadius \<lparr>height = 16::nat, width = 120, borderRadius = Some 0\<rparr> = Some 0 \<and>
   map_of (RectangleSkeletonLoader string_of_nat \<lparr>height = 16, width = 120, borderRadius = Some 0\<rparr>)
     ''border-radius'' = Some ''0px'' \<and>
   map_of (RectangleSkeletonLoader string_of_nat \<lparr>height = 16, width = 120, borderRadius = Some 0\<rparr>)
     ''height'' = Some ''16px'' \<and>
   map_of (RectangleSkeletonLoader string_of_nat \<lparr>height = 16, width = 120, borderRadius = Some 0\<rparr>)
     ''width'' = Some ''120px''"
proof -
  have b1: "borderRadius \<lparr>height = 16::nat, width = 120, borderRadius = None\<rparr> = None"
    and b2: "borderRadius \<lparr>height = 16::nat, width = 120, borderRadius = Some 0\<rparr> = Some 0"
    by simp_all
  have e8: "string_of_nat 8 = ''8''"
    by code_simp
  have e: "string_of_nat 0 @ ''px'' = ''0px''"
    "string_of_nat (height \<lparr>height = 16::nat, width = 120, borderRadius = Some 0\<rparr>) @ ''px''
       = ''16px''"
    "string_of_nat (width \<lparr>height = 16::nat, width = 120, borderRadius = Some 0\<rparr>) @ ''px''
       = ''120px''"
    by code_simp+
  note w1 = rectangle_loader_style
    [of string_of_nat "\<lparr>height = 16, width = 120, borderRadius = None\<rparr>"]
  note w2 = rectangle_loader_style
    [of string_of_nat "\<lparr>height = 16, width = 120, borderRadius = Some 0\<rparr>"]
  have c1: "map_of (RectangleSkeletonLoader string_of_nat
      \<lparr>height = 16, width = 120, borderRadius = None\<rparr>) ''border-radius'' = Some ''8px''"
    using w1 [THEN conjunct2, THEN conjunct2, THEN conjunct2, THEN conjunct1, rule_format,
        OF conjI [OF b1 e8]] .
  have c2: "map_of (RectangleSkeletonLoader string_of_nat
      \<lparr>height = 16, width = 120, borderRadius = Some 0\<rparr>) ''border-radius'' = Some ''0px''"
    using w2 [THEN conjunct2, THEN conjunct2, THEN conjunct2, THEN conjunct2, rule_format, OF b2]
      e(1)
    by simp
  have c3: "map_of (RectangleSkeletonLoader string_of_nat
      \<lparr>height = 16, width = 120, borderRadius = Some 0\<rparr>) ''height'' = Some ''16px''"
    using w2 [THEN conjunct1] e(2) by simp
  have c4: "map_of (RectangleSkeletonLoader string_of_nat
      \<lparr>height = 16, width = 120, borderRadius = Some 0\<rparr>) ''width'' = Some ''120px''"
    using w2 [THEN conjunct2, THEN conjunct1] e(3) by simp
  from b1 e8 c1 b2 c2 c3 c4 show ?thesis
    by (intro conjI)
qed

end
